theory Spec2Isabelle
  imports Main "HOL-Library.Word"
begin

unbundle bit_operations_syntax

section \<open>ATX disk images: data model of \<^verbatim>\<open>atx.c\<close>\<close>

text \<open>
  The target is an AVR microcontroller (\<^verbatim>\<open>avr/io.h\<close>): \<^verbatim>\<open>int\<close> has 16 bits,
  \<^verbatim>\<open>u08\<close>, \<^verbatim>\<open>u16\<close> and \<^verbatim>\<open>u32\<close> are unsigned 8, 16 and 32 bit integers.
  A \<^verbatim>\<open>u16\<close> operand is promoted to \<^verbatim>\<open>unsigned int\<close>, so arithmetic on two
  \<^verbatim>\<open>u16\<close> values wraps modulo \<open>2 ^ 16\<close>, and converting the result to \<^verbatim>\<open>int\<close>
  reads it as two's complement (\<open>sint\<close>).
\<close>

type_synonym u08 = "8 word"
type_synonym u16 = "16 word"
type_synonym u32 = "32 word"

text \<open>
  The shared scratch buffer \<^verbatim>\<open>atari_sector_buffer[256]\<close>, as the bytes found at each
  index from its start.
\<close>

type_synonym buffer = "nat \<Rightarrow> u08"

text \<open>
  Modelled from the spec: the structs that \<^verbatim>\<open>atx.h\<close> declares (the header is not among
  the source files), with the fields of the spec's data model that \<^verbatim>\<open>atx.c\<close> reads and
  the field widths of the ATX format. Their sizes and their layout in the scratch buffer
  are parameters of the model.
\<close>

record atxFileHeader =
  fh_signature :: "nat \<Rightarrow> u08"
  fh_version :: u16
  fh_minVersion :: u16
  fh_density :: u08
  fh_startData :: u32

record atxTrackHeader =
  th_size :: u32
  th_trackNumber :: u08
  th_sectorCount :: u16
  th_headerSize :: u32

record atxSectorListHeader =
  sl_next :: u32

record atxSectorHeader =
  sh_number :: u08
  sh_status :: u08
  sh_timev :: u16
  sh_data :: u32

record atxExtendedSectorData =
  xd_type :: u08
  xd_sectorIndex :: u08
  xd_data :: u16

text \<open>
  What \<^verbatim>\<open>atx.c\<close> takes from outside, as parameters of the model:
  \<^item> \<open>ATX_VERSION\<close> and the \<^verbatim>\<open>sizeof\<close> of each struct (macros and declarations of
    \<^verbatim>\<open>atx.h\<close>), and the view of the scratch buffer through each struct pointer;
  \<^item> \<open>read_bytes off n buf\<close>: the byte-range reader \<^verbatim>\<open>faccess_offset\<close> of \<^verbatim>\<open>fat.c\<close> in
    read mode, giving the number of bytes read (0 on failure) and the buffer it leaves;
  \<^item> \<open>TCNT1 k\<close>: the value of the hardware timer at the \<open>k\<close>-th time it is sampled;
  \<^item> \<open>rand_byte k\<close>: the value of \<^verbatim>\<open>(unsigned char) (rand() % 256)\<close> at the \<open>k\<close>-th call
    of \<^verbatim>\<open>rand\<close>;
  \<^item> \<open>delay_iterations lastAngle headPosition t2\<close>: the number of rounds of the final
    delay loop, which the source computes in floating point from these three values.
\<close>

record env =
  ATX_VERSION :: u16
  sizeof_atxFileHeader :: u16
  sizeof_atxTrackHeader :: u16
  sizeof_atxSectorListHeader :: u16
  sizeof_atxSectorHeader :: u16
  sizeof_atxExtendedSectorData :: u16
  fileHeader_view :: "buffer \<Rightarrow> atxFileHeader"
  trackHeader_view :: "buffer \<Rightarrow> atxTrackHeader"
  slHeader_view :: "buffer \<Rightarrow> atxSectorListHeader"
  sectorHeader_view :: "buffer \<Rightarrow> atxSectorHeader"
  extSectorData_view :: "buffer \<Rightarrow> atxExtendedSectorData"
  read_bytes :: "u32 \<Rightarrow> u16 \<Rightarrow> buffer \<Rightarrow> u16 \<times> buffer"
  TCNT1 :: "nat \<Rightarrow> u16"
  rand_byte :: "nat \<Rightarrow> u08"
  delay_iterations :: "u16 \<Rightarrow> u16 \<Rightarrow> u16 \<Rightarrow> nat"

text \<open>
  The effects a caller can observe besides the results: the byte ranges requested from
  the reader and the calls of \<^verbatim>\<open>_delay_ms\<close>, in program order.
\<close>

datatype event =
  Read u32 u16
  | DelayRequest
  | DelayTrackStep
  | DelayHeadSettle
  | Delay1ms

text \<open>
  The globals of \<^verbatim>\<open>atx.c\<close>, the two externs it uses, the trace of effects, and how
  often the timer and \<^verbatim>\<open>rand\<close> have been read so far. \<open>gTrackInfo st d t\<close> is
  \<^verbatim>\<open>gTrackInfo[d][t].offset\<close>; the table has 2 rows of 40 entries.
\<close>

record atx_state =
  gBytesPerSector :: u16
  gSectorsPerTrack :: u08
  gTrackInfo :: "nat \<Rightarrow> nat \<Rightarrow> u32"
  gLastAngle :: u16
  gCurrentHeadTrack :: u08
  atari_sector_buffer :: buffer
  last_angle_returned :: u16
  trace :: "event list"
  timer_samples :: nat
  rand_calls :: nat

text \<open>The globals as the C runtime initialises them; the externs are given.\<close>

definition atx_init :: "buffer \<Rightarrow> u16 \<Rightarrow> atx_state" where
  "atx_init buf angle =
     \<lparr>gBytesPerSector = 0, gSectorsPerTrack = 0, gTrackInfo = (\<lambda>d t. 0),
      gLastAngle = 0, gCurrentHeadTrack = 0, atari_sector_buffer = buf,
      last_angle_returned = angle, trace = [], timer_samples = 0, rand_calls = 0\<rparr>"

text \<open>
  Undefined behaviour of the C program is a value of the model: a division by zero, an
  access to \<^verbatim>\<open>gTrackInfo[d][t]\<close> outside the 2 by 40 table (row, column), a write to the
  scratch buffer at an index of 256 or more.
\<close>

datatype error =
  DivisionByZero
  | TrackInfoOutOfBounds nat int
  | SectorBufferOverrun

definition AU_FULL_ROTATION :: int where
  "AU_FULL_ROTATION = 26042"

section \<open>External collaborators\<close>

definition faccess_offset :: "env \<Rightarrow> u32 \<Rightarrow> u16 \<Rightarrow> atx_state \<Rightarrow> u16 \<times> atx_state" where
  "faccess_offset e off n st =
     (let r = read_bytes e off n (atari_sector_buffer st)
      in (fst r, st\<lparr>atari_sector_buffer := snd r, trace := trace st @ [Read off n]\<rparr>))"

definition getCurrentHeadPosition :: "env \<Rightarrow> atx_state \<Rightarrow> u16 \<times> atx_state" where
  "getCurrentHeadPosition e st =
     (TCNT1 e (timer_samples st) div 2, st\<lparr>timer_samples := Suc (timer_samples st)\<rparr>)"

definition delay_ms :: "event \<Rightarrow> atx_state \<Rightarrow> atx_state" where
  "delay_ms d st = st\<lparr>trace := trace st @ [d]\<rparr>"

section \<open>loadAtxFile\<close>

text \<open>
  The \<^verbatim>\<open>while (1)\<close> loop of \<^verbatim>\<open>loadAtxFile\<close>. It ends when a read fails; it has no other
  exit, so it need not end, and \<open>None\<close> is the loop that runs forever. The store to
  \<^verbatim>\<open>gTrackInfo[drive][trackHeader->trackNumber]\<close> is not guarded in the source.
\<close>

partial_function (option) track_walk ::
  "env \<Rightarrow> u08 \<Rightarrow> u32 \<Rightarrow> atx_state \<Rightarrow> (error + atx_state) option" where
  "track_walk e drive startOffset st =
     (let r = faccess_offset e startOffset (sizeof_atxTrackHeader e) st
      in if fst r = 0 then Some (Inr (snd r))
         else
           let trackHeader = trackHeader_view e (atari_sector_buffer (snd r));
               t = unat (th_trackNumber trackHeader)
           in if \<not> (unat drive < 2 \<and> t < 40)
              then Some (Inl (TrackInfoOutOfBounds (unat drive) (int t)))
              else track_walk e drive (startOffset + th_size trackHeader)
                     ((snd r)\<lparr>gTrackInfo :=
                        (gTrackInfo (snd r))(unat drive := (gTrackInfo (snd r) (unat drive))(t := startOffset))\<rparr>))"

definition header_invalid :: "env \<Rightarrow> atxFileHeader \<Rightarrow> bool" where
  "header_invalid e fileHeader \<longleftrightarrow>
     fh_signature fileHeader 0 \<noteq> 0x41 \<or>
     fh_signature fileHeader 1 \<noteq> 0x54 \<or>
     fh_signature fileHeader 2 \<noteq> 0x38 \<or>
     fh_signature fileHeader 3 \<noteq> 0x58 \<or>
     fh_version fileHeader \<noteq> ATX_VERSION e \<or>
     fh_minVersion fileHeader \<noteq> ATX_VERSION e"

definition set_geometry :: "atxFileHeader \<Rightarrow> atx_state \<Rightarrow> atx_state" where
  "set_geometry fileHeader st =
     st\<lparr>gSectorsPerTrack := (if fh_density fileHeader = 1 then 26 else 18),
        gBytesPerSector := (if fh_density fileHeader = 1 then 256 else 128)\<rparr>"

definition loadAtxFile :: "env \<Rightarrow> atx_state \<Rightarrow> u08 \<Rightarrow> (error + u16 \<times> atx_state) option" where
  "loadAtxFile e st drive =
     (let st1 = snd (faccess_offset e 0 (sizeof_atxFileHeader e) st);
          fileHeader = fileHeader_view e (atari_sector_buffer st1)
      in if header_invalid e fileHeader then Some (Inr (0, st1))
         else
           case track_walk e drive (fh_startData fileHeader) (set_geometry fileHeader st1) of
             None \<Rightarrow> None
           | Some (Inl err) \<Rightarrow> Some (Inl err)
           | Some (Inr st3) \<Rightarrow> Some (Inr (gBytesPerSector st3, st3)))"

text \<open>
  The track list ends within \<open>n\<close> headers: stepping from an offset by the size each track
  header declares, a read of a track header fails after at most \<open>n\<close> headers, and each
  header met before declares a track number below 40. The buffer is the one the reader
  is handed at that offset.
\<close>

fun track_chain :: "env \<Rightarrow> nat \<Rightarrow> u32 \<Rightarrow> buffer \<Rightarrow> bool" where
  "track_chain e 0 off buf \<longleftrightarrow> fst (read_bytes e off (sizeof_atxTrackHeader e) buf) = 0"
| "track_chain e (Suc n) off buf \<longleftrightarrow>
     fst (read_bytes e off (sizeof_atxTrackHeader e) buf) = 0 \<or>
     (unat (th_trackNumber
         (trackHeader_view e (snd (read_bytes e off (sizeof_atxTrackHeader e) buf)))) < 40 \<and>
      track_chain e n
        (off + th_size
           (trackHeader_view e (snd (read_bytes e off (sizeof_atxTrackHeader e) buf))))
        (snd (read_bytes e off (sizeof_atxTrackHeader e) buf)))"

section \<open>loadAtxSector\<close>

text \<open>The results of one sector request; \<open>sectorSize = None\<close> when \<^verbatim>\<open>*sectorSize\<close> was not written.\<close>

record sector_result =
  ret :: u16
  sectorSize :: "u16 option"
  status :: u08

text \<open>The locals of \<^verbatim>\<open>loadAtxSector\<close> that its sector-list loop reads and writes.\<close>

record scan_vars =
  pTT :: int
  tgtSectorIndex :: u16
  tgtSectorOffset :: u32
  hasError :: bool
  extendedDataRecords :: u08
  maxSectorOffset :: u32
  currentFileOffset :: u32
  status_out :: u08

text \<open>What the part of the function before the loop hands to the loop.\<close>

record scan_ctx =
  c_tgtSectorNumber :: u08
  c_headPosition :: u16
  c_trackOffset :: u32
  c_sectorCount :: u16
  c_vars :: scan_vars
  c_state :: atx_state

datatype progress =
  Return sector_result atx_state
  | is_Continue: Continue (ctx: scan_ctx)

text \<open>
  Lines 125 to 135. \<open>seek_steps\<close> is the number of rounds of the stepping loop:
  \<^verbatim>\<open>diff\<close> is a \<^verbatim>\<open>signed char\<close>, and in \<^verbatim>\<open>i < diff\<close> it is converted to the
  \<^verbatim>\<open>unsigned int\<close> of \<^verbatim>\<open>i\<close>. \<open>seek_delay\<close> is the stepping loop and the settle delay.
\<close>

definition seek_steps :: "u08 \<Rightarrow> u08 \<Rightarrow> nat" where
  "seek_steps tgtTrackNumber headTrack =
     (let d = tgtTrackNumber - headTrack;
          diff = (if sint d < 0 then - d else d)
      in unat (scast diff :: u16))"

definition seek_delay :: "u08 \<Rightarrow> atx_state \<Rightarrow> atx_state" where
  "seek_delay tgtTrackNumber st =
     delay_ms DelayHeadSettle
       (st\<lparr>trace := trace st @
              replicate (seek_steps tgtTrackNumber (gCurrentHeadTrack st)) DelayTrackStep\<rparr>)"

text \<open>
  Lines 110 and 111. \<^verbatim>\<open>num - 1\<close>, the division and the remainder are computed in
  \<^verbatim>\<open>unsigned int\<close>, and the results are stored in \<^verbatim>\<open>u08\<close> variables. The callers
  divide only when \<open>gSectorsPerTrack\<close> is not 0.
\<close>

definition tgtTrackNumber :: "atx_state \<Rightarrow> u16 \<Rightarrow> u08" where
  "tgtTrackNumber st num = ucast ((num - 1) div ucast (gSectorsPerTrack st) + 1)"

definition tgtSectorNumber :: "atx_state \<Rightarrow> u16 \<Rightarrow> u08" where
  "tgtSectorNumber st num = ucast ((num - 1) mod ucast (gSectorsPerTrack st) + 1)"

text \<open>
  Lines 121 to 141: the request delay, the seek delay, the new head track and the first
  sample of the head position.
\<close>

definition request_and_seek :: "env \<Rightarrow> u08 \<Rightarrow> atx_state \<Rightarrow> u16 \<times> atx_state" where
  "request_and_seek e track st =
     (let st1 = delay_ms DelayRequest st;
          st2 = (if gCurrentHeadTrack st1 \<noteq> track then seek_delay track st1 else st1)
      in getCurrentHeadPosition e (st2\<lparr>gCurrentHeadTrack := track\<rparr>))"

text \<open>
  Lines 109 to 160: track and sector number, the guard on the track number, the delays
  and the first head sample, the track header with its guard, and the sector list header.
\<close>

definition sector_setup :: "env \<Rightarrow> atx_state \<Rightarrow> u08 \<Rightarrow> u16 \<Rightarrow> error + progress" where
  "sector_setup e st drive num =
     (if gSectorsPerTrack st = 0 then Inl DivisionByZero
      else if tgtTrackNumber st num > 40
      then Inr (Return \<lparr>ret = 0, sectorSize = None, status = 0xF7\<rparr> st)
      else
        let h = request_and_seek e (tgtTrackNumber st num) st
        in if \<not> (unat drive < 2 \<and> 1 \<le> unat (tgtTrackNumber st num))
           then Inl (TrackInfoOutOfBounds (unat drive) (int (unat (tgtTrackNumber st num)) - 1))
           else
             let trackOffset = gTrackInfo (snd h) (unat drive) (unat (tgtTrackNumber st num) - 1);
                 st4 = snd (faccess_offset e trackOffset (sizeof_atxTrackHeader e) (snd h));
                 trackHeader = trackHeader_view e (atari_sector_buffer st4);
                 sectorCount = th_sectorCount trackHeader
             in if sectorCount = 0 \<or>
                   unat (th_trackNumber trackHeader) \<noteq> unat (tgtTrackNumber st num) - 1
                then Inr (Return \<lparr>ret = 0, sectorSize = None, status = 0xF7\<rparr> st4)
                else
                  let off1 = trackOffset + th_headerSize trackHeader;
                      st5 = snd (faccess_offset e off1 (sizeof_atxSectorListHeader e) st4);
                      slHeader = slHeader_view e (atari_sector_buffer st5);
                      off2 = off1 + (sl_next slHeader -
                               ucast (sectorCount * sizeof_atxSectorHeader e))
                  in Inr (Continue
                       \<lparr>c_tgtSectorNumber = tgtSectorNumber st num,
                        c_headPosition = fst h,
                        c_trackOffset = trackOffset,
                        c_sectorCount = sectorCount,
                        c_vars = \<lparr>pTT = 0, tgtSectorIndex = 0, tgtSectorOffset = 0,
                                  hasError = False, extendedDataRecords = 0,
                                  maxSectorOffset = 0, currentFileOffset = off2,
                                  status_out = 0xF7\<rparr>,
                        c_state = st5\<rparr>))"

text \<open>The test of line 171 that makes a matching occurrence the new best.\<close>

definition improves :: "int \<Rightarrow> int \<Rightarrow> bool" where
  "improves tt p \<longleftrightarrow>
     p = 0 \<or> (tt > 0 \<and> p < 0) \<or> (tt > 0 \<and> p > 0 \<and> tt < p) \<or> (tt < 0 \<and> p < 0 \<and> tt < p)"

text \<open>Lines 172 to 185: the occurrence at index \<open>i\<close> becomes the best.\<close>

definition select_occurrence ::
  "atxSectorHeader \<Rightarrow> nat \<Rightarrow> int \<Rightarrow> scan_vars \<times> atx_state \<Rightarrow> scan_vars \<times> atx_state" where
  "select_occurrence sectorHeader i tt vs =
     ((fst vs)\<lparr>pTT := tt,
        status_out := NOT (sh_status sectorHeader),
        tgtSectorIndex := of_nat i,
        tgtSectorOffset := sh_data sectorHeader,
        maxSectorOffset := (if sh_data sectorHeader > maxSectorOffset (fst vs)
                            then sh_data sectorHeader else maxSectorOffset (fst vs)),
        hasError := (if sh_status sectorHeader > 0 then True else hasError (fst vs)),
        extendedDataRecords := (if sh_status sectorHeader AND 0x40 \<noteq> 0
                                then extendedDataRecords (fst vs) + 1
                                else extendedDataRecords (fst vs))\<rparr>,
      (snd vs)\<lparr>gLastAngle := sh_timev sectorHeader\<rparr>)"

text \<open>
  One round of the loop of lines 164 to 190. \<^verbatim>\<open>tt\<close> is an \<^verbatim>\<open>int\<close> holding the
  \<^verbatim>\<open>unsigned int\<close> difference of two \<^verbatim>\<open>u16\<close> values.
\<close>

definition scan_step :: "env \<Rightarrow> u08 \<Rightarrow> u16 \<Rightarrow> scan_vars \<times> atx_state \<Rightarrow> nat \<Rightarrow> scan_vars \<times> atx_state" where
  "scan_step e sectorNumber headPosition vs i =
     (let r = faccess_offset e (currentFileOffset (fst vs)) (sizeof_atxSectorHeader e) (snd vs)
      in if fst r \<noteq> 0
         then
           let sectorHeader = sectorHeader_view e (atari_sector_buffer (snd r));
               tt = sint (sh_timev sectorHeader - headPosition);
               vs1 = (if sh_number sectorHeader = sectorNumber \<and> improves tt (pTT (fst vs))
                      then select_occurrence sectorHeader i tt (fst vs, snd r)
                      else (fst vs, snd r))
           in ((fst vs1)\<lparr>currentFileOffset :=
                  currentFileOffset (fst vs1) + ucast (sizeof_atxSectorHeader e)\<rparr>, snd vs1)
         else (fst vs, snd r))"

text \<open>The state after the first \<open>k\<close> rounds of the loop, and after all of them.\<close>

definition scan_upto :: "env \<Rightarrow> scan_ctx \<Rightarrow> nat \<Rightarrow> scan_vars \<times> atx_state" where
  "scan_upto e c k =
     foldl (scan_step e (c_tgtSectorNumber c) (c_headPosition c)) (c_vars c, c_state c) [0..<k]"

definition sector_scan :: "env \<Rightarrow> scan_ctx \<Rightarrow> scan_vars \<times> atx_state" where
  "sector_scan e c = scan_upto e c (unat (c_sectorCount c))"

text \<open>
  One round of the loop of lines 196 to 205 over the extended data records, on the weak
  offset, the file offset and the state. \<^verbatim>\<open>weakOffset\<close> is an \<^verbatim>\<open>int\<close>.
\<close>

definition ext_step :: "env \<Rightarrow> u16 \<Rightarrow> int \<times> u32 \<times> atx_state \<Rightarrow> nat \<Rightarrow> int \<times> u32 \<times> atx_state" where
  "ext_step e tgtIndex ws i =
     (let r = faccess_offset e (fst (snd ws)) (sizeof_atxExtendedSectorData e) (snd (snd ws));
          extSectorData = extSectorData_view e (atari_sector_buffer (snd r));
          weakOffset = (if fst r \<noteq> 0 \<and> ucast (xd_sectorIndex extSectorData) = tgtIndex \<and>
                           xd_type extSectorData = 0x10
                        then sint (xd_data extSectorData) else fst ws)
      in (weakOffset, fst (snd ws) + ucast (sizeof_atxExtendedSectorData e), snd r))"

definition weak_scan :: "env \<Rightarrow> u32 \<Rightarrow> scan_vars \<Rightarrow> atx_state \<Rightarrow> int \<times> u32 \<times> atx_state" where
  "weak_scan e trackOffset v st =
     (if extendedDataRecords v > 0
      then foldl (ext_step e (tgtSectorIndex v))
             (- 1, trackOffset + maxSectorOffset v + ucast (gBytesPerSector st), st)
             [0..<unat (extendedDataRecords v)]
      else (- 1, currentFileOffset v, st))"

text \<open>Lines 216 to 220: one call of \<^verbatim>\<open>rand\<close> for each byte from the weak offset on.\<close>

definition randomize_byte :: "env \<Rightarrow> atx_state \<Rightarrow> nat \<Rightarrow> atx_state" where
  "randomize_byte e st i =
     st\<lparr>atari_sector_buffer := (atari_sector_buffer st)(i := rand_byte e (rand_calls st)),
        rand_calls := Suc (rand_calls st)\<rparr>"

definition randomize :: "env \<Rightarrow> int \<Rightarrow> atx_state \<Rightarrow> error + atx_state" where
  "randomize e weakOffset st =
     (if weakOffset > - 1
      then if nat weakOffset < unat (gBytesPerSector st) \<and> 256 < unat (gBytesPerSector st)
           then Inl SectorBufferOverrun
           else Inr (foldl (randomize_byte e) st [nat weakOffset..<unat (gBytesPerSector st)])
      else Inr st)"

text \<open>Lines 222 to 237: the second head sample and the compensated delay.\<close>

definition final_delay :: "env \<Rightarrow> u16 \<Rightarrow> atx_state \<Rightarrow> atx_state" where
  "final_delay e headPosition st =
     (let t = getCurrentHeadPosition e st;
          n = delay_iterations e (gLastAngle (snd t)) headPosition (fst t)
      in (snd t)\<lparr>trace := trace (snd t) @ replicate n Delay1ms\<rparr>)"

text \<open>The sector data read of line 212, on the state the weak-data scan leaves.\<close>

definition data_read :: "env \<Rightarrow> scan_ctx \<Rightarrow> scan_vars \<Rightarrow> atx_state \<Rightarrow> u16 \<times> atx_state" where
  "data_read e c v st =
     (if tgtSectorOffset v \<noteq> 0
      then faccess_offset e (c_trackOffset c + tgtSectorOffset v) (gBytesPerSector st) st
      else (0, st))"

text \<open>Lines 191 to 240, from the end of the sector-list loop to the return.\<close>

definition sector_finish ::
  "env \<Rightarrow> scan_ctx \<Rightarrow> scan_vars \<times> atx_state \<Rightarrow> error + sector_result \<times> atx_state" where
  "sector_finish e c vs =
     (let st1 = (snd vs)\<lparr>last_angle_returned := gLastAngle (snd vs)\<rparr>;
          w = weak_scan e (c_trackOffset c) (fst vs) st1;
          st2 = snd (snd w);
          size = gBytesPerSector st2;
          r = data_read e c (fst vs) st2;
          n = (if hasError (fst vs) then 0 else fst r)
      in case randomize e (fst w) (snd r) of
           Inl err \<Rightarrow> Inl err
         | Inr st3 \<Rightarrow>
             Inr (\<lparr>ret = n, sectorSize = Some size, status = status_out (fst vs)\<rparr>,
                  final_delay e (c_headPosition c) st3))"

definition loadAtxSector ::
  "env \<Rightarrow> atx_state \<Rightarrow> u08 \<Rightarrow> u16 \<Rightarrow> error + sector_result \<times> atx_state" where
  "loadAtxSector e st drive num =
     (case sector_setup e st drive num of
        Inl err \<Rightarrow> Inl err
      | Inr (Return res st') \<Rightarrow> Inr (res, st')
      | Inr (Continue c) \<Rightarrow> sector_finish e c (sector_scan e c))"

section \<open>Reading the loops\<close>

text \<open>
  Round \<open>k\<close> of the sector-list loop: the read it issues, the sector header it sees,
  whether that header is an occurrence of the requested sector, and whether the
  occurrence becomes the running best.
\<close>

definition scan_read :: "env \<Rightarrow> scan_ctx \<Rightarrow> nat \<Rightarrow> u16 \<times> atx_state" where
  "scan_read e c k =
     faccess_offset e (currentFileOffset (fst (scan_upto e c k))) (sizeof_atxSectorHeader e)
       (snd (scan_upto e c k))"

definition header_at :: "env \<Rightarrow> scan_ctx \<Rightarrow> nat \<Rightarrow> atxSectorHeader" where
  "header_at e c k = sectorHeader_view e (atari_sector_buffer (snd (scan_read e c k)))"

definition matches :: "env \<Rightarrow> scan_ctx \<Rightarrow> nat \<Rightarrow> bool" where
  "matches e c k \<longleftrightarrow>
     fst (scan_read e c k) \<noteq> 0 \<and> sh_number (header_at e c k) = c_tgtSectorNumber c"

definition becomes_best :: "env \<Rightarrow> scan_ctx \<Rightarrow> nat \<Rightarrow> bool" where
  "becomes_best e c k \<longleftrightarrow>
     matches e c k \<and>
     improves (sint (sh_timev (header_at e c k) - c_headPosition c)) (pTT (fst (scan_upto e c k)))"

text \<open>
  After \<open>k\<close> rounds the occurrence of round \<open>j\<close> is the chosen one: it became the best
  in round \<open>j\<close>, no later round replaced it, and the index, the angle difference, the
  reported status, the data offset and the last angle are its own.
\<close>

definition chosen_after :: "env \<Rightarrow> scan_ctx \<Rightarrow> nat \<Rightarrow> nat \<Rightarrow> bool" where
  "chosen_after e c k j \<longleftrightarrow>
     j < k \<and> becomes_best e c j \<and>
     (\<forall>i. j < i \<and> i < k \<longrightarrow> \<not> becomes_best e c i) \<and>
     tgtSectorIndex (fst (scan_upto e c k)) = of_nat j \<and>
     pTT (fst (scan_upto e c k)) = sint (sh_timev (header_at e c j) - c_headPosition c) \<and>
     status_out (fst (scan_upto e c k)) = NOT (sh_status (header_at e c j)) \<and>
     tgtSectorOffset (fst (scan_upto e c k)) = sh_data (header_at e c j) \<and>
     gLastAngle (snd (scan_upto e c k)) = sh_timev (header_at e c j)"

text \<open>The context with which the sector-list loop starts, for a call that gets there.\<close>

definition scan_ctx_of :: "env \<Rightarrow> atx_state \<Rightarrow> u08 \<Rightarrow> u16 \<Rightarrow> scan_ctx" where
  "scan_ctx_of e st drive num = ctx (projr (sector_setup e st drive num))"

text \<open>
  The forward angular distance from the head to an angular mark: the difference when it
  is positive, and the difference plus a full rotation otherwise.
\<close>

definition forward_distance :: "u16 \<Rightarrow> u16 \<Rightarrow> int" where
  "forward_distance headPosition timev =
     (let d = int (unat timev) - int (unat headPosition)
      in if d > 0 then d else d + AU_FULL_ROTATION)"

text \<open>
  The values \<^verbatim>\<open>loadAtxSector\<close> goes through after the sector-list loop: the locals and
  the state at line 191, the extended-record loop round by round, its result, and the
  state after the data read of line 212.
\<close>

definition scanned :: "env \<Rightarrow> scan_ctx \<Rightarrow> scan_vars \<times> atx_state" where
  "scanned e c =
     (fst (sector_scan e c),
      (snd (sector_scan e c))\<lparr>last_angle_returned := gLastAngle (snd (sector_scan e c))\<rparr>)"

definition ext_upto :: "env \<Rightarrow> scan_ctx \<Rightarrow> nat \<Rightarrow> int \<times> u32 \<times> atx_state" where
  "ext_upto e c r =
     foldl (ext_step e (tgtSectorIndex (fst (scanned e c))))
       (- 1,
        c_trackOffset c + maxSectorOffset (fst (scanned e c)) +
          ucast (gBytesPerSector (snd (scanned e c))),
        snd (scanned e c))
       [0..<r]"

definition ext_record :: "env \<Rightarrow> scan_ctx \<Rightarrow> nat \<Rightarrow> u16 \<times> atxExtendedSectorData" where
  "ext_record e c r =
     (let rd = faccess_offset e (fst (snd (ext_upto e c r))) (sizeof_atxExtendedSectorData e)
                 (snd (snd (ext_upto e c r)))
      in (fst rd, extSectorData_view e (atari_sector_buffer (snd rd))))"

definition ext_matches :: "env \<Rightarrow> scan_ctx \<Rightarrow> nat \<Rightarrow> bool" where
  "ext_matches e c r \<longleftrightarrow>
     fst (ext_record e c r) \<noteq> 0 \<and>
     ucast (xd_sectorIndex (snd (ext_record e c r))) = tgtSectorIndex (fst (scanned e c)) \<and>
     xd_type (snd (ext_record e c r)) = 0x10"

definition weak_resolved :: "env \<Rightarrow> scan_ctx \<Rightarrow> int \<times> u32 \<times> atx_state" where
  "weak_resolved e c = weak_scan e (c_trackOffset c) (fst (scanned e c)) (snd (scanned e c))"

definition payload :: "env \<Rightarrow> scan_ctx \<Rightarrow> u16 \<times> atx_state" where
  "payload e c = data_read e c (fst (scanned e c)) (snd (snd (weak_resolved e c)))"

section \<open>Example images\<close>

text \<open>
  A concrete environment: the packed little-endian layout of the ATX format, a reader
  over an image given as the bytes found at each offset where a read succeeds, a timer
  and a random source.
\<close>

definition le16 :: "buffer \<Rightarrow> nat \<Rightarrow> u16" where
  "le16 b i = ucast (b i) + 256 * ucast (b (i + 1))"

definition le32 :: "buffer \<Rightarrow> nat \<Rightarrow> u32" where
  "le32 b i =
     ucast (b i) + 256 * ucast (b (i + 1)) + 65536 * ucast (b (i + 2)) +
     16777216 * ucast (b (i + 3))"

definition put16 :: "nat \<Rightarrow> u16 \<Rightarrow> buffer \<Rightarrow> buffer" where
  "put16 i v b = b(i := ucast v, i + 1 := ucast (drop_bit 8 v))"

definition put32 :: "nat \<Rightarrow> u32 \<Rightarrow> buffer \<Rightarrow> buffer" where
  "put32 i v b =
     b(i := ucast v, i + 1 := ucast (drop_bit 8 v), i + 2 := ucast (drop_bit 16 v),
       i + 3 := ucast (drop_bit 24 v))"

definition view_fileHeader :: "buffer \<Rightarrow> atxFileHeader" where
  "view_fileHeader b =
     \<lparr>fh_signature = b, fh_version = le16 b 4, fh_minVersion = le16 b 6,
      fh_density = b 18, fh_startData = le32 b 28\<rparr>"

definition view_trackHeader :: "buffer \<Rightarrow> atxTrackHeader" where
  "view_trackHeader b =
     \<lparr>th_size = le32 b 0, th_trackNumber = b 8, th_sectorCount = le16 b 10,
      th_headerSize = le32 b 20\<rparr>"

definition view_slHeader :: "buffer \<Rightarrow> atxSectorListHeader" where
  "view_slHeader b = \<lparr>sl_next = le32 b 0\<rparr>"

definition view_sectorHeader :: "buffer \<Rightarrow> atxSectorHeader" where
  "view_sectorHeader b =
     \<lparr>sh_number = b 0, sh_status = b 1, sh_timev = le16 b 2, sh_data = le32 b 4\<rparr>"

definition view_extSectorData :: "buffer \<Rightarrow> atxExtendedSectorData" where
  "view_extSectorData b = \<lparr>xd_type = b 4, xd_sectorIndex = b 5, xd_data = le16 b 6\<rparr>"

definition bytes_fileHeader :: "u08 \<Rightarrow> u16 \<Rightarrow> u08 \<Rightarrow> u32 \<Rightarrow> buffer" where
  "bytes_fileHeader magic0 version density startData =
     put32 28 startData (put16 6 version (put16 4 version
       ((\<lambda>i. 0)(0 := magic0, 1 := 0x54, 2 := 0x38, 3 := 0x58, 18 := density))))"

definition bytes_trackHeader :: "atxTrackHeader \<Rightarrow> buffer" where
  "bytes_trackHeader h =
     put32 20 (th_headerSize h) (put16 10 (th_sectorCount h) (put32 0 (th_size h)
       ((\<lambda>i. 0)(8 := th_trackNumber h))))"

definition bytes_slHeader :: "atxSectorListHeader \<Rightarrow> buffer" where
  "bytes_slHeader h = put32 0 (sl_next h) (\<lambda>i. 0)"

definition bytes_sectorHeader :: "atxSectorHeader \<Rightarrow> buffer" where
  "bytes_sectorHeader h =
     put32 4 (sh_data h) (put16 2 (sh_timev h) ((\<lambda>i. 0)(0 := sh_number h, 1 := sh_status h)))"

definition bytes_extSectorData :: "atxExtendedSectorData \<Rightarrow> buffer" where
  "bytes_extSectorData h = put16 6 (xd_data h) ((\<lambda>i. 0)(4 := xd_type h, 5 := xd_sectorIndex h))"

definition image_reader :: "(u32 \<rightharpoonup> buffer) \<Rightarrow> u32 \<Rightarrow> u16 \<Rightarrow> buffer \<Rightarrow> u16 \<times> buffer" where
  "image_reader img off n buf =
     (case img off of
        None \<Rightarrow> (0, buf)
      | Some bytes \<Rightarrow> (n, \<lambda>i. if i < unat n then bytes i else buf i))"

text \<open>
  The rounds of the final delay loop of lines 226 to 237 in exact arithmetic, counted in
  units of 1/1000000000000 ms: the rotational delay plus 11 ms minus the time the reads took,
  rounded up, and no round when that is not positive. The differences are those of the
  source, in \<^verbatim>\<open>unsigned int\<close>.
\<close>

definition delay_rounds :: "u16 \<Rightarrow> u16 \<Rightarrow> u16 \<Rightarrow> nat" where
  "delay_rounds lastAngle headPosition t2 =
     (let rotation = (if lastAngle > headPosition then lastAngle - headPosition
                      else 26042 - headPosition + lastAngle);
          total = int (unat rotation) * 7999897601 + 11 * 1000000000000
                    - int (unat (t2 - headPosition)) * 7999897601
      in if total \<le> 0 then 0 else nat ((total + 999999999999) div 1000000000000))"

definition atx_env :: "(u32 \<rightharpoonup> buffer) \<Rightarrow> u16 \<Rightarrow> env" where
  "atx_env img ticks =
     \<lparr>ATX_VERSION = 1, sizeof_atxFileHeader = 48, sizeof_atxTrackHeader = 32,
      sizeof_atxSectorListHeader = 8, sizeof_atxSectorHeader = 8,
      sizeof_atxExtendedSectorData = 8,
      fileHeader_view = view_fileHeader, trackHeader_view = view_trackHeader,
      slHeader_view = view_slHeader, sectorHeader_view = view_sectorHeader,
      extSectorData_view = view_extSectorData,
      read_bytes = image_reader img, TCNT1 = (\<lambda>k. ticks),
      rand_byte = (\<lambda>k. of_nat (17 * k + 5)), delay_iterations = delay_rounds\<rparr>"

text \<open>The state after a single-density image was loaded with its track 0 at offset 0.\<close>

definition single_density :: atx_state where
  "single_density = (atx_init (\<lambda>i. 0) 0)\<lparr>gSectorsPerTrack := 18, gBytesPerSector := 128\<rparr>"

text \<open>
  Track 0 with two occurrences of sector 1, of the given status and angular marks, and
  their payloads.
\<close>

definition twin_image :: "u08 \<Rightarrow> u16 \<Rightarrow> u16 \<Rightarrow> (u32 \<rightharpoonup> buffer)" where
  "twin_image status0 timev0 timev1 =
     [0 \<mapsto> bytes_trackHeader
            \<lparr>th_size = 312, th_trackNumber = 0, th_sectorCount = 2, th_headerSize = 32\<rparr>,
      32 \<mapsto> bytes_slHeader \<lparr>sl_next = 24\<rparr>,
      40 \<mapsto> bytes_sectorHeader
             \<lparr>sh_number = 1, sh_status = status0, sh_timev = timev0, sh_data = 56\<rparr>,
      48 \<mapsto> bytes_sectorHeader \<lparr>sh_number = 1, sh_status = 0, sh_timev = timev1, sh_data = 184\<rparr>,
      56 \<mapsto> (\<lambda>i. 0xAA),
      184 \<mapsto> (\<lambda>i. 0xBB)]"

text \<open>Track 0 with one occurrence of sector 1 that has a weak-data record at offset 126.\<close>

definition weak_image :: "u32 \<rightharpoonup> buffer" where
  "weak_image =
     [0 \<mapsto> bytes_trackHeader
            \<lparr>th_size = 184, th_trackNumber = 0, th_sectorCount = 1, th_headerSize = 32\<rparr>,
      32 \<mapsto> bytes_slHeader \<lparr>sl_next = 16\<rparr>,
      40 \<mapsto> bytes_sectorHeader \<lparr>sh_number = 1, sh_status = 0x40, sh_timev = 5000, sh_data = 48\<rparr>,
      48 \<mapsto> (\<lambda>i. 0xAA),
      176 \<mapsto> bytes_extSectorData \<lparr>xd_type = 0x10, xd_sectorIndex = 0, xd_data = 126\<rparr>]"

text \<open>Track 0 with an empty sector list.\<close>

definition empty_track_image :: "u32 \<rightharpoonup> buffer" where
  "empty_track_image =
     [0 \<mapsto> bytes_trackHeader
            \<lparr>th_size = 40, th_trackNumber = 0, th_sectorCount = 0, th_headerSize = 32\<rparr>]"

text \<open>A file header followed by one track header at offset 48.\<close>

definition file_image :: "u08 \<Rightarrow> u16 \<Rightarrow> u08 \<Rightarrow> atxTrackHeader \<Rightarrow> (u32 \<rightharpoonup> buffer)" where
  "file_image magic0 version density trackHeader =
     [0 \<mapsto> bytes_fileHeader magic0 version density 48,
      48 \<mapsto> bytes_trackHeader trackHeader]"

text \<open>
  Three files: one of an unsupported version, one whose only track declares size 0, and
  one whose only track declares track number 200.
\<close>

definition wrong_version_file :: env where
  "wrong_version_file =
     atx_env (file_image 0x41 2 1
       \<lparr>th_size = 312, th_trackNumber = 0, th_sectorCount = 2, th_headerSize = 32\<rparr>) 2000"

definition endless_file :: env where
  "endless_file =
     atx_env (file_image 0x41 1 1
       \<lparr>th_size = 0, th_trackNumber = 0, th_sectorCount = 2, th_headerSize = 32\<rparr>) 2000"

definition overflow_file :: env where
  "overflow_file =
     atx_env (file_image 0x41 1 0
       \<lparr>th_size = 312, th_trackNumber = 200, th_sectorCount = 2, th_headerSize = 32\<rparr>) 2000"

text \<open>
  A contiguous file of 360 bytes, read at every offset below its end: the header of an
  enhanced-density image and one track of 312 bytes, which is track 0.
\<close>

definition flat_reader :: "nat \<Rightarrow> buffer \<Rightarrow> u32 \<Rightarrow> u16 \<Rightarrow> buffer \<Rightarrow> u16 \<times> buffer" where
  "flat_reader len bytes off n buf =
     (if unat off < len
      then (of_nat (min (unat n) (len - unat off)),
            \<lambda>i. if i < min (unat n) (len - unat off) then bytes (unat off + i) else buf i)
      else (0, buf))"

definition contiguous_bytes :: buffer where
  "contiguous_bytes =
     (\<lambda>i. if i < 48 then bytes_fileHeader 0x41 1 1 48 i
          else bytes_trackHeader
                 \<lparr>th_size = 312, th_trackNumber = 0, th_sectorCount = 2, th_headerSize = 32\<rparr>
                 (i - 48))"

definition contiguous_file :: env where
  "contiguous_file = (atx_env Map.empty 2000)\<lparr>read_bytes := flat_reader 360 contiguous_bytes\<rparr>"

text \<open>
  Four disks, all with the head sampled at angle 1000: two occurrences at marks 30000 and
  100; two occurrences at marks 20000 and 5000, the first with a status error bit; the
  weak sector; the empty track.
\<close>

definition overshoot_disk :: env where
  "overshoot_disk = atx_env (twin_image 0 30000 100) 2000"

definition twin_disk :: env where
  "twin_disk = atx_env (twin_image 8 20000 5000) 2000"

definition weak_disk :: env where
  "weak_disk = atx_env weak_image 2000"

definition empty_track_disk :: env where
  "empty_track_disk = atx_env empty_track_image 2000"

lemmas atx_example_defs =
  wrong_version_file_def endless_file_def overflow_file_def contiguous_file_def
  contiguous_bytes_def flat_reader_def
  overshoot_disk_def twin_disk_def weak_disk_def empty_track_disk_def
  atx_env_def single_density_def atx_init_def twin_image_def weak_image_def
  empty_track_image_def file_image_def image_reader_def
  view_fileHeader_def view_trackHeader_def view_slHeader_def view_sectorHeader_def
  view_extSectorData_def bytes_fileHeader_def bytes_trackHeader_def bytes_slHeader_def
  bytes_sectorHeader_def bytes_extSectorData_def le16_def le32_def put16_def put32_def

section \<open>Frame lemmas\<close>

lemma faccess_offset_fields [simp]:
  "fst (faccess_offset e off n st) = fst (read_bytes e off n (atari_sector_buffer st))"
  "atari_sector_buffer (snd (faccess_offset e off n st)) = snd (read_bytes e off n (atari_sector_buffer st))"
  "trace (snd (faccess_offset e off n st)) = trace st @ [Read off n]"
  "gBytesPerSector (snd (faccess_offset e off n st)) = gBytesPerSector st"
  "gSectorsPerTrack (snd (faccess_offset e off n st)) = gSectorsPerTrack st"
  "gTrackInfo (snd (faccess_offset e off n st)) = gTrackInfo st"
  "gLastAngle (snd (faccess_offset e off n st)) = gLastAngle st"
  "gCurrentHeadTrack (snd (faccess_offset e off n st)) = gCurrentHeadTrack st"
  "last_angle_returned (snd (faccess_offset e off n st)) = last_angle_returned st"
  "timer_samples (snd (faccess_offset e off n st)) = timer_samples st"
  "rand_calls (snd (faccess_offset e off n st)) = rand_calls st"
  by (simp_all add: faccess_offset_def Let_def)

section \<open>loadAtxFile\<close>

lemma track_walk_chain:
  assumes drive: "unat drive < 2"
  shows "track_chain e n off (atari_sector_buffer st) \<Longrightarrow>
         \<exists>st'. track_walk e drive off st = Some (Inr st') \<and>
           gSectorsPerTrack st' = gSectorsPerTrack st \<and> gBytesPerSector st' = gBytesPerSector st"
proof (induction n arbitrary: off st)
  case 0
  then show ?case
    by (subst track_walk.simps) (simp add: Let_def)
next
  case (Suc n)
  let ?r = "faccess_offset e off (sizeof_atxTrackHeader e) st"
  show ?case
  proof (cases "fst ?r = 0")
    case True
    then show ?thesis
      by (subst track_walk.simps) (simp add: Let_def)
  next
    case False
    let ?th = "trackHeader_view e (atari_sector_buffer (snd ?r))"
    let ?st1 = "(snd ?r)\<lparr>gTrackInfo := (gTrackInfo (snd ?r))(unat drive :=
            (gTrackInfo (snd ?r) (unat drive))(unat (th_trackNumber ?th) := off))\<rparr>"
    from False Suc.prems have tn: "unat (th_trackNumber ?th) < 40"
      and rest: "track_chain e n (off + th_size ?th) (atari_sector_buffer ?st1)"
      by simp_all
    from Suc.IH [OF rest] obtain st' where
      "track_walk e drive (off + th_size ?th) ?st1 = Some (Inr st')"
      "gSectorsPerTrack st' = gSectorsPerTrack st" "gBytesPerSector st' = gBytesPerSector st"
      by auto
    with False tn drive show ?thesis
      by (subst track_walk.simps) (simp add: Let_def)
  qed
qed

lemma track_walk_diverges:
  assumes "\<forall>buf. fst (read_bytes e off (sizeof_atxTrackHeader e) buf) \<noteq> 0 \<and>
            th_size (trackHeader_view e (snd (read_bytes e off (sizeof_atxTrackHeader e) buf))) = 0 \<and>
            unat (th_trackNumber (trackHeader_view e (snd (read_bytes e off (sizeof_atxTrackHeader e) buf)))) < 40"
    and "unat drive < 2"
  shows "track_walk e drive off st = None"
proof -
  have "e' = e \<longrightarrow> d = drive \<longrightarrow> o' = off \<longrightarrow> False"
    if "track_walk e' d o' s = Some y" for e' d o' s y
    apply (rule track_walk.raw_induct
        [where P = "\<lambda>e' d o' s y. e' = e \<longrightarrow> d = drive \<longrightarrow> o' = off \<longrightarrow> False", OF _ that])
    using assms apply (auto simp: Let_def split: if_splits)
    apply blast
    done
  then have never: "track_walk e drive off st \<noteq> Some y" for y
    by blast
  show ?thesis
  proof (cases "track_walk e drive off st")
    case None
    then show ?thesis .
  next
    case (Some y)
    with never [of y] show ?thesis
      by simp
  qed
qed

text \<open>
  Claim C8. When the header that \<^verbatim>\<open>loadAtxFile\<close> finds in the scratch buffer after its
  first read has a wrong magic byte, or a version or minimum version other than the
  supported one, the function returns 0, and the track table, the sectors per track and
  the bytes per sector are what they were.
\<close>

theorem loadAtxFile_rejects_header:
  assumes "header_invalid e
             (fileHeader_view e (snd (read_bytes e 0 (sizeof_atxFileHeader e) (atari_sector_buffer st))))"
  shows "\<exists>st'. loadAtxFile e st drive = Some (Inr (0, st')) \<and>
           gTrackInfo st' = gTrackInfo st \<and>
           gSectorsPerTrack st' = gSectorsPerTrack st \<and>
           gBytesPerSector st' = gBytesPerSector st"
  using assms by (simp add: loadAtxFile_def Let_def)

text \<open>Claim C8 at a file of version 2, loaded into drive slot 1.\<close>

theorem loadAtxFile_rejects_header_witness:
  "header_invalid wrong_version_file
     (fileHeader_view wrong_version_file
       (snd (read_bytes wrong_version_file 0 (sizeof_atxFileHeader wrong_version_file)
          (atari_sector_buffer single_density)))) \<and>
   (\<exists>st'. loadAtxFile wrong_version_file single_density 1 = Some (Inr (0, st')) \<and>
           gTrackInfo st' = gTrackInfo single_density \<and>
           gSectorsPerTrack st' = 18 \<and>
           gBytesPerSector st' = 128)"
proof -
  have h: "header_invalid wrong_version_file
     (fileHeader_view wrong_version_file
       (snd (read_bytes wrong_version_file 0 (sizeof_atxFileHeader wrong_version_file)
          (atari_sector_buffer single_density))))"
    by (simp add: header_invalid_def atx_example_defs)
  have g: "gSectorsPerTrack single_density = 18" "gBytesPerSector single_density = 128"
    by (simp_all add: single_density_def atx_init_def)
  from h loadAtxFile_rejects_header [OF h, of 1] g show ?thesis
    by simp
qed

text \<open>
  Claim C9 fails as stated: the header of this file passes validation, its only track
  header declares size 0, and the loop of \<^verbatim>\<open>loadAtxFile\<close> reads that header again and
  again; the function does not return.
\<close>

theorem loadAtxFile_endless_counterexample:
  "\<not> header_invalid endless_file
       (fileHeader_view endless_file
         (snd (read_bytes endless_file 0 (sizeof_atxFileHeader endless_file) (\<lambda>i. 0)))) \<and>
   loadAtxFile endless_file (atx_init (\<lambda>i. 0) 0) 0 = None"
proof -
  have valid: "\<not> header_invalid endless_file
       (fileHeader_view endless_file
         (snd (read_bytes endless_file 0 (sizeof_atxFileHeader endless_file) (\<lambda>i. 0))))"
    by (simp add: header_invalid_def atx_example_defs)
  have start: "fh_startData (fileHeader_view endless_file
         (snd (read_bytes endless_file 0 (sizeof_atxFileHeader endless_file) (\<lambda>i. 0)))) = 48"
    by (simp add: atx_example_defs)
  have "track_walk endless_file 0 48 st = None" for st
    by (rule track_walk_diverges) (simp_all add: atx_example_defs)
  with valid start show ?thesis
    by (simp add: loadAtxFile_def Let_def atx_init_def)
qed

text \<open>
  Claim C9, amended. For an image whose header passes validation and whose track list
  ends (stepping from the data start by the size each track header declares, a read of a
  track header fails after finitely many headers, each of which declares a track number
  below 40), loaded into drive slot 0 or 1: \<^verbatim>\<open>loadAtxFile\<close> returns the bytes per sector,
  having set 26 sectors per track and 256 bytes per sector for density code 1, and 18 and
  128 for any other density code.
\<close>

theorem loadAtxFile_geometry:
  assumes fh: "fileHeader =
      fileHeader_view e (snd (read_bytes e 0 (sizeof_atxFileHeader e) (atari_sector_buffer st)))"
    and valid: "\<not> header_invalid e fileHeader"
    and chain: "track_chain e n (fh_startData fileHeader)
      (snd (read_bytes e 0 (sizeof_atxFileHeader e) (atari_sector_buffer st)))"
    and drive: "unat drive < 2"
  shows "\<exists>st'. loadAtxFile e st drive = Some (Inr (gBytesPerSector st', st')) \<and>
           gSectorsPerTrack st' = (if fh_density fileHeader = 1 then 26 else 18) \<and>
           gBytesPerSector st' = (if fh_density fileHeader = 1 then 256 else 128)"
proof -
  let ?st1 = "snd (faccess_offset e 0 (sizeof_atxFileHeader e) st)"
  have fh': "fileHeader_view e (atari_sector_buffer ?st1) = fileHeader"
    using fh by simp
  have "track_chain e n (fh_startData fileHeader)
      (atari_sector_buffer (set_geometry fileHeader ?st1))"
    using chain by (simp add: set_geometry_def)
  from track_walk_chain [OF drive this]
  obtain st' where walk: "track_walk e drive (fh_startData fileHeader) (set_geometry fileHeader ?st1) = Some (Inr st')"
    and spt: "gSectorsPerTrack st' = gSectorsPerTrack (set_geometry fileHeader ?st1)"
    and bps: "gBytesPerSector st' = gBytesPerSector (set_geometry fileHeader ?st1)"
    by blast
  from valid fh' walk have "loadAtxFile e st drive = Some (Inr (gBytesPerSector st', st'))"
    by (simp add: loadAtxFile_def Let_def)
  with spt bps show ?thesis
    by (simp add: set_geometry_def)
qed

text \<open>
  Claim C9, amended, at the contiguous file of 360 bytes: its track list ends after one
  header, at the end of the file. Reads inside the track body succeed as well (the one
  at offset 100 finds size 0 there); the walk does not visit them.
\<close>

theorem loadAtxFile_geometry_witness:
  "fst (read_bytes contiguous_file 100 (sizeof_atxTrackHeader contiguous_file) (\<lambda>i. 0)) = 32 \<and>
   th_size (trackHeader_view contiguous_file
      (snd (read_bytes contiguous_file 100 (sizeof_atxTrackHeader contiguous_file) (\<lambda>i. 0)))) = 0 \<and>
   (\<exists>st'. loadAtxFile contiguous_file (atx_init (\<lambda>i. 0) 0) 0 = Some (Inr (256, st')) \<and>
           gSectorsPerTrack st' = 26 \<and> gBytesPerSector st' = 256)"
proof -
  let ?buf = "snd (read_bytes contiguous_file 0 (sizeof_atxFileHeader contiguous_file)
         (atari_sector_buffer (atx_init (\<lambda>i. 0) 0)))"
  let ?fh = "fileHeader_view contiguous_file ?buf"
  have valid: "\<not> header_invalid contiguous_file ?fh"
    by code_simp
  have chain: "track_chain contiguous_file (Suc 0) (fh_startData ?fh) ?buf"
    by code_simp
  have drive: "unat (0 :: u08) < 2"
    by simp
  have dens: "fh_density ?fh = 1"
    by code_simp
  have inside: "fst (read_bytes contiguous_file 100 (sizeof_atxTrackHeader contiguous_file) (\<lambda>i. 0)) = 32"
    "th_size (trackHeader_view contiguous_file
      (snd (read_bytes contiguous_file 100 (sizeof_atxTrackHeader contiguous_file) (\<lambda>i. 0)))) = 0"
    by code_simp+
  from loadAtxFile_geometry [OF refl valid chain drive] dens inside show ?thesis
    by auto
qed

text \<open>
  Claim C2 against the code: a file with a valid header and a track header that declares
  track number 200, loaded into drive slot 0. \<^verbatim>\<open>loadAtxFile\<close> stores to
  \<^verbatim>\<open>gTrackInfo[0][200]\<close>, outside the 2 by 40 table: the store has no bound check.
\<close>

theorem loadAtxFile_track_200_out_of_bounds:
  "loadAtxFile overflow_file (atx_init (\<lambda>i. 0) 0) 0 = Some (Inl (TrackInfoOutOfBounds 0 200))"
proof -
  have "track_walk overflow_file 0 48 st = Some (Inl (TrackInfoOutOfBounds 0 200))" for st
    by (subst track_walk.simps) (simp add: atx_example_defs Let_def)
  then show ?thesis
    by (simp add: loadAtxFile_def Let_def header_invalid_def atx_example_defs)
qed


section \<open>Angles as machine integers\<close>

lemma uint_mark:
  fixes a :: "16 word"
  assumes "unat a < 26042"
  shows "0 \<le> uint a" and "uint a < 26042"
proof -
  have "uint a = int (unat a)"
    by (rule uint_nat)
  with assms show "0 \<le> uint a" and "uint a < 26042"
    by linarith+
qed

lemma two_to_15: "(2 :: int) ^ 15 = 32768"
  by simp

lemma sint_small:
  fixes a :: "16 word"
  assumes "unat a < 26042"
  shows "sint a = uint a"
proof -
  have "sint a = signed_take_bit 15 (uint a)"
    by (simp add: sint_uint)
  also have "\<dots> = uint a"
  proof (rule signed_take_bit_int_eq_self)
    show "- (2 ^ 15) \<le> uint a"
      using uint_mark [OF assms] two_to_15 by linarith
    show "uint a < 2 ^ 15"
      using uint_mark [OF assms] two_to_15 by linarith
  qed
  finally show ?thesis .
qed

lemma sint_diff_marks:
  fixes a h :: "16 word"
  assumes "unat a < 26042" and "unat h < 26042"
  shows "sint (a - h) = uint a - uint h"
proof -
  have "sint (a - h) = signed_take_bit 15 (sint a - sint h)"
    by (simp add: sint_word_diff)
  also from assms have "\<dots> = signed_take_bit 15 (uint a - uint h)"
    by (simp add: sint_small)
  also have "\<dots> = uint a - uint h"
  proof (rule signed_take_bit_int_eq_self)
    show "- (2 ^ 15) \<le> uint a - uint h"
      using uint_mark [OF assms(1)] uint_mark [OF assms(2)] two_to_15 by linarith
    show "uint a - uint h < 2 ^ 15"
      using uint_mark [OF assms(1)] uint_mark [OF assms(2)] two_to_15 by linarith
  qed
  finally show ?thesis .
qed

lemma forward_distance_uint:
  "forward_distance h a =
     (if uint a - uint h > 0 then uint a - uint h else uint a - uint h + 26042)"
  by (simp add: forward_distance_def AU_FULL_ROTATION_def Let_def)

lemma improves_int:
  fixes a b h :: int
  assumes "0 \<le> a" "a < 26042" "0 \<le> b" "b < 26042" "0 \<le> h" "h < 26042"
  shows "improves (a - h) (b - h) \<Longrightarrow>
           (if a - h > 0 then a - h else a - h + 26042) \<le> (if b - h > 0 then b - h else b - h + 26042)"
    and "\<not> improves (a - h) (b - h) \<Longrightarrow>
           (if b - h > 0 then b - h else b - h + 26042) \<le> (if a - h > 0 then a - h else a - h + 26042)"
  using assms by (auto simp: improves_def)

lemma improves_nearer:
  fixes a b h :: "16 word"
  assumes "unat a < 26042" and "unat b < 26042" and "unat h < 26042"
    and "improves (sint (a - h)) (sint (b - h))"
  shows "forward_distance h a \<le> forward_distance h b"
  unfolding forward_distance_uint
  using improves_int(1) [OF uint_mark [OF assms(1)] uint_mark [OF assms(2)] uint_mark [OF assms(3)]]
    assms(4)
  unfolding sint_diff_marks [OF assms(1,3)] sint_diff_marks [OF assms(2,3)]
  by blast

lemma keeps_nearer:
  fixes a b h :: "16 word"
  assumes "unat a < 26042" and "unat b < 26042" and "unat h < 26042"
    and "\<not> improves (sint (a - h)) (sint (b - h))"
  shows "forward_distance h b \<le> forward_distance h a"
  unfolding forward_distance_uint
  using improves_int(2) [OF uint_mark [OF assms(1)] uint_mark [OF assms(2)] uint_mark [OF assms(3)]]
    assms(4)
  unfolding sint_diff_marks [OF assms(1,3)] sint_diff_marks [OF assms(2,3)]
  by blast


section \<open>The sector-list loop\<close>

lemma scan_upto_0 [simp]: "scan_upto e c 0 = (c_vars c, c_state c)"
  by (simp add: scan_upto_def)

lemma scan_upto_Suc:
  "scan_upto e c (Suc k) =
     scan_step e (c_tgtSectorNumber c) (c_headPosition c) (scan_upto e c k) k"
  by (simp add: scan_upto_def)

lemma scan_round_best:
  assumes "becomes_best e c k"
  shows "pTT (fst (scan_upto e c (Suc k))) = sint (sh_timev (header_at e c k) - c_headPosition c)"
    and "status_out (fst (scan_upto e c (Suc k))) = NOT (sh_status (header_at e c k))"
    and "tgtSectorIndex (fst (scan_upto e c (Suc k))) = of_nat k"
    and "tgtSectorOffset (fst (scan_upto e c (Suc k))) = sh_data (header_at e c k)"
    and "hasError (fst (scan_upto e c (Suc k))) \<longleftrightarrow>
           sh_status (header_at e c k) \<noteq> 0 \<or> hasError (fst (scan_upto e c k))"
    and "gLastAngle (snd (scan_upto e c (Suc k))) = sh_timev (header_at e c k)"
  using assms
  by (simp_all add: scan_upto_Suc scan_step_def becomes_best_def matches_def header_at_def
      scan_read_def select_occurrence_def Let_def word_gt_0)

lemma scan_round_keep:
  assumes "\<not> becomes_best e c k"
  shows "pTT (fst (scan_upto e c (Suc k))) = pTT (fst (scan_upto e c k))"
    and "status_out (fst (scan_upto e c (Suc k))) = status_out (fst (scan_upto e c k))"
    and "tgtSectorIndex (fst (scan_upto e c (Suc k))) = tgtSectorIndex (fst (scan_upto e c k))"
    and "tgtSectorOffset (fst (scan_upto e c (Suc k))) = tgtSectorOffset (fst (scan_upto e c k))"
    and "hasError (fst (scan_upto e c (Suc k))) = hasError (fst (scan_upto e c k))"
    and "gLastAngle (snd (scan_upto e c (Suc k))) = gLastAngle (snd (scan_upto e c k))"
  using assms
  by (auto simp add: scan_upto_Suc scan_step_def becomes_best_def matches_def header_at_def
      scan_read_def Let_def)

lemma chosen_after_best:
  "becomes_best e c k \<Longrightarrow> chosen_after e c (Suc k) k"
  by (auto simp: chosen_after_def scan_round_best)

lemma chosen_after_keep:
  "\<not> becomes_best e c k \<Longrightarrow> chosen_after e c k j \<Longrightarrow> chosen_after e c (Suc k) j"
  by (auto simp: chosen_after_def scan_round_keep less_Suc_eq)

lemma chosen_after_Suc_best:
  assumes "chosen_after e c (Suc k) j" and "becomes_best e c k"
  shows "j = k"
proof (rule ccontr)
  assume "j \<noteq> k"
  with assms(1) have "j < k"
    by (simp add: chosen_after_def)
  with assms show False
    by (auto simp: chosen_after_def)
qed

lemma chosen_after_Suc_keep:
  assumes "chosen_after e c (Suc k) j" and "\<not> becomes_best e c k"
  shows "chosen_after e c k j"
proof -
  from assms have "j \<noteq> k"
    by (auto simp: chosen_after_def)
  with assms show ?thesis
    by (auto simp: chosen_after_def scan_round_keep less_Suc_eq)
qed

lemma chosen_after_matches: "chosen_after e c k j \<Longrightarrow> j < k \<and> matches e c j"
  by (simp add: chosen_after_def becomes_best_def)

text \<open>Either nothing has matched and the locals are the initial ones, or some match is chosen.\<close>

lemma scan_choice:
  assumes "pTT (c_vars c) = 0" and "status_out (c_vars c) = 0xF7"
  shows "((\<forall>j<k. \<not> matches e c j) \<and> pTT (fst (scan_upto e c k)) = 0 \<and>
            status_out (fst (scan_upto e c k)) = 0xF7 \<and>
            gLastAngle (snd (scan_upto e c k)) = gLastAngle (c_state c)) \<or>
         (\<exists>j. chosen_after e c k j)"
proof (induction k)
  case 0
  with assms show ?case by simp
next
  case (Suc k)
  show ?case
  proof (cases "becomes_best e c k")
    case True
    then show ?thesis
      using chosen_after_best by blast
  next
    case False
    from Suc.IH show ?thesis
    proof
      assume none: "(\<forall>j<k. \<not> matches e c j) \<and> pTT (fst (scan_upto e c k)) = 0 \<and>
            status_out (fst (scan_upto e c k)) = 0xF7 \<and>
            gLastAngle (snd (scan_upto e c k)) = gLastAngle (c_state c)"
      with False have "\<not> matches e c k"
        by (simp add: becomes_best_def improves_def)
      with none have "\<forall>j<Suc k. \<not> matches e c j"
        by (simp add: less_Suc_eq)
      with none False show ?thesis
        by (simp add: scan_round_keep)
    next
      assume "\<exists>j. chosen_after e c k j"
      with False show ?thesis
        using chosen_after_keep by blast
    qed
  qed
qed

lemma scan_error_flag:
  assumes "\<not> hasError (c_vars c)"
  shows "hasError (fst (scan_upto e c k)) \<longleftrightarrow>
           (\<exists>j<k. becomes_best e c j \<and> sh_status (header_at e c j) \<noteq> 0)"
proof (induction k)
  case 0
  with assms show ?case by simp
next
  case (Suc k)
  show ?case
  proof (cases "becomes_best e c k")
    case True
    with Suc show ?thesis
      by (auto simp: scan_round_best less_Suc_eq)
  next
    case False
    with Suc show ?thesis
      by (auto simp: scan_round_keep less_Suc_eq)
  qed
qed


text \<open>Within one rotation the chosen occurrence is the nearest ahead of the head.\<close>

lemma scan_nearest:
  assumes init: "pTT (c_vars c) = 0" "status_out (c_vars c) = 0xF7"
    and head: "unat (c_headPosition c) < 26042"
    and marks: "\<forall>i<n. matches e c i \<longrightarrow> unat (sh_timev (header_at e c i)) < 26042"
  shows "k \<le> n \<Longrightarrow> chosen_after e c k j \<Longrightarrow> i < k \<Longrightarrow> matches e c i \<Longrightarrow>
           forward_distance (c_headPosition c) (sh_timev (header_at e c j))
             \<le> forward_distance (c_headPosition c) (sh_timev (header_at e c i))"
proof (induction k arbitrary: j i)
  case 0
  then show ?case by simp
next
  case (Suc k)
  from Suc.prems have kn: "k \<le> n" "k < n"
    by simp_all
  show ?case
  proof (cases "becomes_best e c k")
    case True
    with Suc.prems have jk: "j = k"
      using chosen_after_Suc_best by blast
    show ?thesis
    proof (cases "i = k")
      case True
      with jk show ?thesis by simp
    next
      case False
      with Suc.prems have ik: "i < k"
        by simp
      with Suc.prems scan_choice [OF init, where e = e and k = k]
      obtain j' where j': "chosen_after e c k j'"
        by blast
      then have mj': "j' < k" "matches e c j'"
        using chosen_after_matches by blast+
      from Suc.IH [OF kn(1) j' ik] Suc.prems
      have below: "forward_distance (c_headPosition c) (sh_timev (header_at e c j'))
             \<le> forward_distance (c_headPosition c) (sh_timev (header_at e c i))"
        by simp
      from True have mk: "matches e c k"
        by (simp add: becomes_best_def)
      from marks kn mk have bk: "unat (sh_timev (header_at e c k)) < 26042"
        by simp
      from marks kn mj' have bj': "unat (sh_timev (header_at e c j')) < 26042"
        by simp
      from True j' have "improves (sint (sh_timev (header_at e c k) - c_headPosition c))
           (sint (sh_timev (header_at e c j') - c_headPosition c))"
        by (simp add: becomes_best_def chosen_after_def)
      from improves_nearer [OF bk bj' head this] below jk show ?thesis
        by simp
    qed
  next
    case False
    with Suc.prems have j: "chosen_after e c k j"
      using chosen_after_Suc_keep by blast
    show ?thesis
    proof (cases "i = k")
      case True
      from j have mj: "j < k" "matches e c j"
        using chosen_after_matches by blast+
      from marks kn Suc.prems True have bk: "unat (sh_timev (header_at e c k)) < 26042"
        by simp
      from marks kn mj have bj: "unat (sh_timev (header_at e c j)) < 26042"
        by simp
      from False Suc.prems True j
      have "\<not> improves (sint (sh_timev (header_at e c k) - c_headPosition c))
           (sint (sh_timev (header_at e c j) - c_headPosition c))"
        by (simp add: becomes_best_def chosen_after_def)
      from keeps_nearer [OF bk bj head this] True show ?thesis
        by simp
    next
      case False
      with Suc.prems have "i < k"
        by simp
      from Suc.IH [OF kn(1) j this] Suc.prems show ?thesis
        by simp
    qed
  qed
qed

section \<open>From the call to the loop\<close>

lemma sector_setup_Continue:
  assumes "sector_setup e st drive num = Inr (Continue c)"
  shows "pTT (c_vars c) = 0" and "status_out (c_vars c) = 0xF7" and "\<not> hasError (c_vars c)"
    and "gBytesPerSector (c_state c) = gBytesPerSector st"
    and "rand_calls (c_state c) = rand_calls st"
    and "c = scan_ctx_of e st drive num"
  using assms
  by (auto simp: sector_setup_def request_and_seek_def seek_delay_def delay_ms_def
      getCurrentHeadPosition_def scan_ctx_of_def Let_def split: if_splits)

lemma sector_finish_stages:
  "sector_finish e c (sector_scan e c) =
     (case randomize e (fst (weak_resolved e c)) (snd (payload e c)) of
        Inl err \<Rightarrow> Inl err
      | Inr st3 \<Rightarrow>
          Inr (\<lparr>ret = (if hasError (fst (sector_scan e c)) then 0 else fst (payload e c)),
                sectorSize = Some (gBytesPerSector (snd (snd (weak_resolved e c)))),
                status = status_out (fst (sector_scan e c))\<rparr>,
               final_delay e (c_headPosition c) st3))"
  unfolding sector_finish_def scanned_def weak_resolved_def payload_def Let_def fst_conv snd_conv
  by (rule refl)

lemma loadAtxSector_Continue:
  assumes "sector_setup e st drive num = Inr (Continue c)"
    and "loadAtxSector e st drive num = Inr (res, st')"
  shows "status res = status_out (fst (sector_scan e c))"
    and "ret res = (if hasError (fst (sector_scan e c)) then 0 else fst (payload e c))"
  using assms
  by (auto simp: loadAtxSector_def sector_finish_stages split: sum.splits)

lemma loadAtxSector_Return:
  assumes "sector_setup e st drive num = Inr (Return r s)"
  shows "loadAtxSector e st drive num = Inr (r, s)" and "status r = 0xF7" and "ret r = 0"
    and "sectorSize r = None"
  using assms
  by (auto simp: loadAtxSector_def sector_setup_def Let_def split: if_splits)

section \<open>The nearest occurrence\<close>

lemma setup_eq_scan_ctx_of:
  assumes "\<not> isl (sector_setup e st drive num)"
    and "is_Continue (projr (sector_setup e st drive num))"
  shows "sector_setup e st drive num = Inr (Continue (scan_ctx_of e st drive num))"
  using assms by (cases "sector_setup e st drive num") (auto simp: scan_ctx_of_def)

lemma result_eq_projr:
  assumes "\<not> isl (loadAtxSector e st drive num)"
  shows "loadAtxSector e st drive num =
     Inr (fst (projr (loadAtxSector e st drive num)), snd (projr (loadAtxSector e st drive num)))"
  using assms by (cases "loadAtxSector e st drive num") auto

lemma overshoot_setup:
  "sector_setup overshoot_disk single_density 0 1 =
     Inr (Continue (scan_ctx_of overshoot_disk single_density 0 1))"
  by (rule setup_eq_scan_ctx_of; code_simp)

lemma overshoot_rounds:
  "c_sectorCount (scan_ctx_of overshoot_disk single_density 0 1) = 2"
  "c_headPosition (scan_ctx_of overshoot_disk single_density 0 1) = 1000"
  "becomes_best overshoot_disk (scan_ctx_of overshoot_disk single_density 0 1) 0"
  "matches overshoot_disk (scan_ctx_of overshoot_disk single_density 0 1) (Suc 0)"
  "\<not> becomes_best overshoot_disk (scan_ctx_of overshoot_disk single_density 0 1) (Suc 0)"
  "sh_timev (header_at overshoot_disk (scan_ctx_of overshoot_disk single_density 0 1) 0) = 30000"
  "sh_timev (header_at overshoot_disk (scan_ctx_of overshoot_disk single_density 0 1) (Suc 0)) = 100"
  by code_simp+

text \<open>
  Claim C1 fails as stated. On this disk sector 1 occurs at the angular marks 30000 and
  100 and the head is sampled at 1000. The loop ends with the occurrence at 30000 chosen
  (its difference is positive, the other one negative), whose forward distance by the
  claim's own measure is 29000; the occurrence at 100 has forward distance 25142.
\<close>

theorem nearest_occurrence_counterexample:
  "sector_setup overshoot_disk single_density 0 1 =
     Inr (Continue (scan_ctx_of overshoot_disk single_density 0 1)) \<and>
   c_sectorCount (scan_ctx_of overshoot_disk single_density 0 1) = 2 \<and>
   chosen_after overshoot_disk (scan_ctx_of overshoot_disk single_density 0 1) 2 0 \<and>
   matches overshoot_disk (scan_ctx_of overshoot_disk single_density 0 1) 1 \<and>
   forward_distance (c_headPosition (scan_ctx_of overshoot_disk single_density 0 1))
     (sh_timev (header_at overshoot_disk (scan_ctx_of overshoot_disk single_density 0 1) 1)) = 25142 \<and>
   forward_distance (c_headPosition (scan_ctx_of overshoot_disk single_density 0 1))
     (sh_timev (header_at overshoot_disk (scan_ctx_of overshoot_disk single_density 0 1) 0)) = 29000"
proof -
  have "chosen_after overshoot_disk (scan_ctx_of overshoot_disk single_density 0 1) (Suc (Suc 0)) 0"
    using overshoot_rounds(3,5) chosen_after_best chosen_after_keep
    by blast
  then have "chosen_after overshoot_disk (scan_ctx_of overshoot_disk single_density 0 1) 2 0"
    by (simp add: numeral_2_eq_2)
  with overshoot_setup overshoot_rounds show ?thesis
    by (simp add: forward_distance_def AU_FULL_ROTATION_def)
qed

text \<open>
  Claim C1, amended. For a call that reaches the sector-list loop with the head sample
  and the angular mark of every matching header below 26042 (one rotation), and with at
  least one matching header: the occurrence chosen when the loop ends has the smallest
  forward angular distance from the head sample among all matching occurrences, also
  when every difference is negative.
\<close>

theorem nearest_occurrence:
  assumes start: "sector_setup e st drive num = Inr (Continue c)"
    and head: "unat (c_headPosition c) < 26042"
    and marks: "\<forall>k<unat (c_sectorCount c). matches e c k \<longrightarrow>
                  unat (sh_timev (header_at e c k)) < 26042"
    and some: "k < unat (c_sectorCount c)" "matches e c k"
  shows "\<exists>j. chosen_after e c (unat (c_sectorCount c)) j \<and>
           (\<forall>i<unat (c_sectorCount c). matches e c i \<longrightarrow>
              forward_distance (c_headPosition c) (sh_timev (header_at e c j))
                \<le> forward_distance (c_headPosition c) (sh_timev (header_at e c i)))"
proof -
  note init = sector_setup_Continue(1,2) [OF start]
  from scan_choice [OF init, where e = e and k = "unat (c_sectorCount c)"] some
  obtain j where j: "chosen_after e c (unat (c_sectorCount c)) j"
    by blast
  with scan_nearest [OF init head marks order_refl j] show ?thesis
    by blast
qed

lemma twin_setup:
  "sector_setup twin_disk single_density 0 1 =
     Inr (Continue (scan_ctx_of twin_disk single_density 0 1))"
  by (rule setup_eq_scan_ctx_of; code_simp)

lemma twin_rounds:
  "c_sectorCount (scan_ctx_of twin_disk single_density 0 1) = 2"
  "c_headPosition (scan_ctx_of twin_disk single_density 0 1) = 1000"
  "becomes_best twin_disk (scan_ctx_of twin_disk single_density 0 1) 0"
  "becomes_best twin_disk (scan_ctx_of twin_disk single_density 0 1) (Suc 0)"
  "sh_timev (header_at twin_disk (scan_ctx_of twin_disk single_density 0 1) 0) = 20000"
  "sh_timev (header_at twin_disk (scan_ctx_of twin_disk single_density 0 1) (Suc 0)) = 5000"
  "sh_status (header_at twin_disk (scan_ctx_of twin_disk single_density 0 1) 0) = 8"
  "sh_status (header_at twin_disk (scan_ctx_of twin_disk single_density 0 1) (Suc 0)) = 0"
  by code_simp+

lemma twin_result:
  "\<not> isl (loadAtxSector twin_disk single_density 0 1)"
  "ret (fst (projr (loadAtxSector twin_disk single_density 0 1))) = 0"
  "status (fst (projr (loadAtxSector twin_disk single_density 0 1))) = 0xFF"
  "fst (payload twin_disk (scan_ctx_of twin_disk single_density 0 1)) = 128"
  by code_simp+

text \<open>Claim C1, amended, on the disk with marks 20000 and 5000 and the head at 1000.\<close>

theorem nearest_occurrence_witness:
  "sector_setup twin_disk single_density 0 1 =
     Inr (Continue (scan_ctx_of twin_disk single_density 0 1)) \<and>
   unat (c_headPosition (scan_ctx_of twin_disk single_density 0 1)) < 26042 \<and>
   matches twin_disk (scan_ctx_of twin_disk single_density 0 1) 0 \<and>
   (\<exists>j. chosen_after twin_disk (scan_ctx_of twin_disk single_density 0 1) 2 j \<and>
      (\<forall>i<2. matches twin_disk (scan_ctx_of twin_disk single_density 0 1) i \<longrightarrow>
         forward_distance 1000 (sh_timev (header_at twin_disk (scan_ctx_of twin_disk single_density 0 1) j))
           \<le> forward_distance 1000 (sh_timev (header_at twin_disk (scan_ctx_of twin_disk single_density 0 1) i))))"
proof -
  let ?c = "scan_ctx_of twin_disk single_density 0 1"
  have head: "unat (c_headPosition ?c) < 26042"
    by (simp add: twin_rounds)
  have marks: "\<forall>k<unat (c_sectorCount ?c). matches twin_disk ?c k \<longrightarrow>
                  unat (sh_timev (header_at twin_disk ?c k)) < 26042"
    by (simp add: twin_rounds less_2_cases_iff)
  have first: "0 < unat (c_sectorCount ?c)" "matches twin_disk ?c 0"
    using twin_rounds by (simp_all add: becomes_best_def)
  from nearest_occurrence [OF twin_setup head marks first] twin_setup head first
  show ?thesis
    by (simp add: twin_rounds)
qed

section \<open>Sixteen-bit signed values\<close>

lemma sint_u16:
  fixes x :: "16 word"
  shows "sint x = (if uint x < 32768 then uint x else uint x - 65536)"
proof -
  have eq: "sint x = (uint x + 32768) mod 65536 - 32768"
    by (simp add: sint_uint signed_take_bit_eq_take_bit_shift take_bit_eq_mod)
  have "uint x < 2 ^ 16"
    using unsigned_less [of x, where ?'a = int] by simp
  then have b: "uint x < 65536"
    by simp
  have nn: "0 \<le> uint x"
    by simp
  show ?thesis
  proof (cases "uint x < 32768")
    case True
    with nn have "(uint x + 32768) mod 65536 = uint x + 32768"
      by (intro mod_pos_pos_trivial) linarith+
    with eq True show ?thesis
      by simp
  next
    case False
    have "(uint x + 32768) mod 65536 = (uint x - 32768 + 65536) mod 65536"
      by (simp add: algebra_simps)
    also have "\<dots> = (uint x - 32768) mod 65536"
      by (rule mod_add_self2)
    also from False b have "\<dots> = uint x - 32768"
      by (intro mod_pos_pos_trivial) linarith+
    finally show ?thesis
      using eq False by simp
  qed
qed


section \<open>The extended-record loop\<close>

lemma ext_upto_Suc:
  "ext_upto e c (Suc r) =
     ext_step e (tgtSectorIndex (fst (scanned e c))) (ext_upto e c r) r"
  by (simp add: ext_upto_def)

lemma ext_round:
  "fst (ext_upto e c (Suc r)) =
     (if ext_matches e c r then sint (xd_data (snd (ext_record e c r))) else fst (ext_upto e c r))"
  by (simp add: ext_upto_Suc ext_step_def ext_matches_def ext_record_def Let_def)

lemma ext_last_match:
  assumes "ext_matches e c r"
  shows "r < m \<Longrightarrow> \<forall>r'. r < r' \<and> r' < m \<longrightarrow> \<not> ext_matches e c r' \<Longrightarrow>
           fst (ext_upto e c m) = sint (xd_data (snd (ext_record e c r)))"
proof (induction m)
  case 0
  then show ?case by simp
next
  case (Suc m)
  show ?case
  proof (cases "r = m")
    case True
    with assms show ?thesis
      by (simp add: ext_round)
  next
    case False
    with Suc.prems have "r < m" and "\<not> ext_matches e c m"
      by simp_all
    with Suc show ?thesis
      by (simp add: ext_round)
  qed
qed

lemma weak_resolved_rounds:
  "fst (weak_resolved e c) = fst (ext_upto e c (unat (extendedDataRecords (fst (scanned e c)))))"
  by (simp add: weak_resolved_def weak_scan_def ext_upto_def word_gt_0)

section \<open>What the loops leave alone\<close>

lemma scan_step_frame:
  "gBytesPerSector (snd (scan_step e s h vs i)) = gBytesPerSector (snd vs)"
  "rand_calls (snd (scan_step e s h vs i)) = rand_calls (snd vs)"
  by (simp_all add: scan_step_def select_occurrence_def Let_def)

lemma scan_upto_frame:
  "gBytesPerSector (snd (scan_upto e c k)) = gBytesPerSector (c_state c)"
  "rand_calls (snd (scan_upto e c k)) = rand_calls (c_state c)"
  by (induction k) (simp_all add: scan_upto_Suc scan_step_frame)

lemma scanned_frame:
  "gBytesPerSector (snd (scanned e c)) = gBytesPerSector (c_state c)"
  "rand_calls (snd (scanned e c)) = rand_calls (c_state c)"
  by (simp_all add: scanned_def sector_scan_def scan_upto_frame)

lemma ext_step_frame:
  "gBytesPerSector (snd (snd (ext_step e t ws i))) = gBytesPerSector (snd (snd ws))"
  "rand_calls (snd (snd (ext_step e t ws i))) = rand_calls (snd (snd ws))"
  by (simp_all add: ext_step_def Let_def)

lemma ext_fold_frame:
  "gBytesPerSector (snd (snd (foldl (ext_step e t) ws rs))) = gBytesPerSector (snd (snd ws))"
  "rand_calls (snd (snd (foldl (ext_step e t) ws rs))) = rand_calls (snd (snd ws))"
  by (induction rs arbitrary: ws) (simp_all add: ext_step_frame)

lemma weak_resolved_frame:
  "gBytesPerSector (snd (snd (weak_resolved e c))) = gBytesPerSector (c_state c)"
  "rand_calls (snd (snd (weak_resolved e c))) = rand_calls (c_state c)"
  by (simp_all add: weak_resolved_def weak_scan_def ext_fold_frame scanned_frame)

lemma payload_frame:
  "gBytesPerSector (snd (payload e c)) = gBytesPerSector (c_state c)"
  "rand_calls (snd (payload e c)) = rand_calls (c_state c)"
  by (simp_all add: payload_def data_read_def weak_resolved_frame)

lemma final_delay_buffer:
  "atari_sector_buffer (final_delay e h st) = atari_sector_buffer st"
  by (simp add: final_delay_def getCurrentHeadPosition_def Let_def)

section \<open>The weak bytes\<close>

lemma randomize_fold:
  "atari_sector_buffer (foldl (randomize_byte e) st [w..<n]) i =
     (if w \<le> i \<and> i < n then rand_byte e (rand_calls st + (i - w)) else atari_sector_buffer st i)"
  "rand_calls (foldl (randomize_byte e) st [w..<n]) = rand_calls st + (n - w)"
proof (induction n)
  case 0
  {
    case 1
    show ?case by simp
  next
    case 2
    show ?case by simp
  }
next
  case (Suc n)
  {
    case 1
    show ?case
      using Suc by (auto simp: randomize_byte_def less_Suc_eq)
  next
    case 2
    show ?case
      using Suc by (auto simp: randomize_byte_def)
  }
qed

section \<open>Status and length\<close>

text \<open>
  Claim C4. When an occurrence that becomes the running best in some round of the
  sector-list loop has a nonzero status byte, the call returns 0 bytes, whatever the
  later rounds choose and whatever the data read returns.
\<close>

theorem error_flag_sticks:
  assumes start: "sector_setup e st drive num = Inr (Continue c)"
    and round: "k < unat (c_sectorCount c)"
    and best: "becomes_best e c k"
    and bad: "sh_status (header_at e c k) \<noteq> 0"
    and result: "loadAtxSector e st drive num = Inr (res, st')"
  shows "ret res = 0"
proof -
  from round best bad have "hasError (fst (sector_scan e c))"
    unfolding sector_scan_def scan_error_flag [OF sector_setup_Continue(3) [OF start]]
    by blast
  with loadAtxSector_Continue(2) [OF start result] show ?thesis
    by simp
qed

text \<open>
  Claim C4 on the disk whose first occurrence has status 8 and whose second, chosen in
  the end, has status 0: the data read yields 128 bytes and the call returns 0.
\<close>

theorem error_flag_sticks_witness:
  "becomes_best twin_disk (scan_ctx_of twin_disk single_density 0 1) 0 \<and>
   sh_status (header_at twin_disk (scan_ctx_of twin_disk single_density 0 1) 0) = 8 \<and>
   chosen_after twin_disk (scan_ctx_of twin_disk single_density 0 1) 2 1 \<and>
   sh_status (header_at twin_disk (scan_ctx_of twin_disk single_density 0 1) 1) = 0 \<and>
   fst (payload twin_disk (scan_ctx_of twin_disk single_density 0 1)) = 128 \<and>
   ret (fst (projr (loadAtxSector twin_disk single_density 0 1))) = 0"
proof -
  let ?c = "scan_ctx_of twin_disk single_density 0 1"
  have round: "0 < unat (c_sectorCount ?c)"
    by (simp add: twin_rounds)
  have bad: "sh_status (header_at twin_disk ?c 0) \<noteq> 0"
    by (simp add: twin_rounds)
  have "chosen_after twin_disk ?c (Suc (Suc 0)) (Suc 0)"
    using twin_rounds(4) by (rule chosen_after_best)
  then have chosen: "chosen_after twin_disk ?c 2 1"
    by (simp add: numeral_2_eq_2)
  from error_flag_sticks [OF twin_setup round twin_rounds(3) bad result_eq_projr [OF twin_result(1)]]
    chosen twin_rounds twin_result
  show ?thesis
    by simp
qed

text \<open>
  Claim C6. The status byte a call reports is the bitwise complement of the status byte
  of the occurrence chosen when the sector-list loop ends; it is 0xF7 when no header
  matched the requested sector number, and when the call returned before the loop.
\<close>

theorem status_complement:
  assumes result: "loadAtxSector e st drive num = Inr (res, st')"
  shows "case sector_setup e st drive num of
           Inr (Continue c) \<Rightarrow>
             (\<exists>j. chosen_after e c (unat (c_sectorCount c)) j \<and>
                  status res = NOT (sh_status (header_at e c j))) \<or>
             ((\<forall>k<unat (c_sectorCount c). \<not> matches e c k) \<and> status res = 0xF7)
         | _ \<Rightarrow> status res = 0xF7"
proof (cases "sector_setup e st drive num")
  case (Inl err)
  with result show ?thesis
    by (simp add: loadAtxSector_def)
next
  case (Inr p)
  show ?thesis
  proof (cases p)
    case (Return r s)
    with Inr loadAtxSector_Return [of e st drive num r s] result show ?thesis
      by simp
  next
    case (Continue c)
    with Inr have start: "sector_setup e st drive num = Inr (Continue c)"
      by simp
    note init = sector_setup_Continue(1,2) [OF start]
    from scan_choice [OF init, where e = e and k = "unat (c_sectorCount c)"]
      loadAtxSector_Continue(1) [OF start result]
    have "(\<exists>j. chosen_after e c (unat (c_sectorCount c)) j \<and>
                  status res = NOT (sh_status (header_at e c j))) \<or>
             ((\<forall>k<unat (c_sectorCount c). \<not> matches e c k) \<and> status res = 0xF7)"
      by (auto simp: sector_scan_def chosen_after_def)
    with start show ?thesis
      by simp
  qed
qed

text \<open>Claim C6 on the same disk: the chosen occurrence has status 0, the call reports 0xFF.\<close>

theorem status_complement_witness:
  "(\<exists>j. chosen_after twin_disk (scan_ctx_of twin_disk single_density 0 1) 2 j \<and>
        status (fst (projr (loadAtxSector twin_disk single_density 0 1))) =
          NOT (sh_status (header_at twin_disk (scan_ctx_of twin_disk single_density 0 1) j))) \<and>
   status (fst (projr (loadAtxSector twin_disk single_density 0 1))) = 0xFF"
proof -
  let ?c = "scan_ctx_of twin_disk single_density 0 1"
  have m: "matches twin_disk ?c 0"
    using twin_rounds(3) by (simp add: becomes_best_def)
  from status_complement [OF result_eq_projr [OF twin_result(1)]] m
  show ?thesis
    by (auto simp: twin_setup twin_rounds twin_result)
qed

lemma loadAtxSector_stages:
  assumes "sector_setup e st drive num = Inr (Continue c)"
  shows "loadAtxSector e st drive num =
     (case randomize e (fst (weak_resolved e c)) (snd (payload e c)) of
        Inl err \<Rightarrow> Inl err
      | Inr st3 \<Rightarrow>
          Inr (\<lparr>ret = (if hasError (fst (sector_scan e c)) then 0 else fst (payload e c)),
                sectorSize = Some (gBytesPerSector (snd (snd (weak_resolved e c)))),
                status = status_out (fst (sector_scan e c))\<rparr>,
               final_delay e (c_headPosition c) st3))"
  using assms by (simp add: loadAtxSector_def sector_finish_stages)

lemma randomize_weak:
  assumes "0 \<le> w" and "unat (gBytesPerSector st) \<le> 256"
  shows "randomize e w st =
           Inr (foldl (randomize_byte e) st [nat w..<unat (gBytesPerSector st)])"
  using assms by (simp add: randomize_def)

lemma randomize_none:
  assumes "w < 0"
  shows "randomize e w st = Inr st"
  using assms by (simp add: randomize_def)

text \<open>
  Claim C5. Let round \<open>r\<close> be the last round of the extended-record loop whose record
  matches the chosen sector index with type 0x10, and \<open>K\<close> its start offset, for a call
  that reaches the sector-list loop with at most 256 bytes per sector. Then the call
  returns; every buffer byte at an index from \<open>K\<close> up to the bytes per sector is the
  value of its own call of \<^verbatim>\<open>rand\<close>, numbered from the calls made before; the bytes
  below \<open>K\<close> are those the buffer held after the data read of line 212; and the returned
  length is 0 when the error flag is set.
\<close>

theorem weak_bytes_randomized:
  assumes start: "sector_setup e st drive num = Inr (Continue c)"
    and round: "r < unat (extendedDataRecords (fst (scanned e c)))"
    and found: "ext_matches e c r"
    and last: "\<forall>r'. r < r' \<and> r' < unat (extendedDataRecords (fst (scanned e c))) \<longrightarrow>
                 \<not> ext_matches e c r'"
    and K: "K = unat (xd_data (snd (ext_record e c r)))"
    and bps: "unat (gBytesPerSector st) \<le> 256"
  shows "\<exists>res st'. loadAtxSector e st drive num = Inr (res, st') \<and>
           ret res = (if hasError (fst (scanned e c)) then 0 else fst (payload e c)) \<and>
           (\<forall>i<K. atari_sector_buffer st' i = atari_sector_buffer (snd (payload e c)) i) \<and>
           (\<forall>i. K \<le> i \<and> i < unat (gBytesPerSector st) \<longrightarrow>
                atari_sector_buffer st' i = rand_byte e (rand_calls st + (i - K)))"
proof -
  let ?d = "xd_data (snd (ext_record e c r))"
  let ?p = "snd (payload e c)"
  have w: "fst (weak_resolved e c) = sint ?d"
    unfolding weak_resolved_rounds using ext_last_match [OF found round last] .
  have pb: "gBytesPerSector ?p = gBytesPerSector st"
    by (simp add: payload_frame sector_setup_Continue(4) [OF start])
  have pr: "rand_calls ?p = rand_calls st"
    by (simp add: payload_frame sector_setup_Continue(5) [OF start])
  have he: "hasError (fst (sector_scan e c)) = hasError (fst (scanned e c))"
    by (simp add: scanned_def)
  have Ku: "int K = uint ?d"
    unfolding K by (rule uint_nat [symmetric])
  show ?thesis
  proof (cases "uint ?d < 32768")
    case True
    then have s: "sint ?d = int K"
      using Ku by (simp add: sint_u16)
    have rz: "randomize e (fst (weak_resolved e c)) ?p =
        Inr (foldl (randomize_byte e) ?p [K..<unat (gBytesPerSector st)])"
      using randomize_weak [of "int K" ?p e] bps by (simp add: w s pb)
    show ?thesis
      unfolding loadAtxSector_stages [OF start] rz
      by (simp add: he final_delay_buffer randomize_fold pr)
  next
    case False
    then have neg: "sint ?d < 0"
      using unsigned_less [of ?d, where ?'a = int] by (simp add: sint_u16)
    from False Ku have big: "32768 \<le> K"
      by linarith
    have rz: "randomize e (fst (weak_resolved e c)) ?p = Inr ?p"
      using randomize_none [OF neg] by (simp add: w)
    show ?thesis
      unfolding loadAtxSector_stages [OF start] rz
      using big bps by (auto simp: he final_delay_buffer)
  qed
qed

text \<open>The weak disk: one occurrence with status 0x40 and a weak-data record at offset 126.\<close>

lemma weak_setup:
  "sector_setup weak_disk single_density 0 1 =
     Inr (Continue (scan_ctx_of weak_disk single_density 0 1))"
  by (rule setup_eq_scan_ctx_of; code_simp)

lemma weak_rounds:
  "unat (extendedDataRecords (fst (scanned weak_disk (scan_ctx_of weak_disk single_density 0 1)))) = 1"
  "ext_matches weak_disk (scan_ctx_of weak_disk single_density 0 1) 0"
  "unat (xd_data (snd (ext_record weak_disk (scan_ctx_of weak_disk single_density 0 1) 0))) = 126"
  "hasError (fst (scanned weak_disk (scan_ctx_of weak_disk single_density 0 1)))"
  "fst (payload weak_disk (scan_ctx_of weak_disk single_density 0 1)) = 128"
  "atari_sector_buffer (snd (payload weak_disk (scan_ctx_of weak_disk single_density 0 1))) 125 = 0xAA"
  "unat (gBytesPerSector single_density) = 128"
  "rand_calls single_density = 0"
  "rand_byte weak_disk 0 = 5"
  "rand_byte weak_disk (Suc 0) = 22"
  by code_simp+

text \<open>
  Claim C5 on the weak disk: byte 125 is the payload byte, bytes 126 and 127 are the first
  two random values, and the returned length is 0 since status 0x40 sets the error flag.
\<close>

theorem weak_bytes_randomized_witness:
  "ext_matches weak_disk (scan_ctx_of weak_disk single_density 0 1) 0 \<and>
   (\<exists>res st'. loadAtxSector weak_disk single_density 0 1 = Inr (res, st') \<and>
      ret res = 0 \<and>
      atari_sector_buffer st' 125 = 0xAA \<and>
      atari_sector_buffer st' 126 = 5 \<and>
      atari_sector_buffer st' 127 = 22)"
proof -
  let ?c = "scan_ctx_of weak_disk single_density 0 1"
  have round: "0 < unat (extendedDataRecords (fst (scanned weak_disk ?c)))"
    by (simp add: weak_rounds)
  have last: "\<forall>r'. 0 < r' \<and> r' < unat (extendedDataRecords (fst (scanned weak_disk ?c))) \<longrightarrow>
                 \<not> ext_matches weak_disk ?c r'"
    by (auto simp: weak_rounds)
  have K: "126 = unat (xd_data (snd (ext_record weak_disk ?c 0)))"
    by (simp add: weak_rounds)
  have bps: "unat (gBytesPerSector single_density) \<le> 256"
    by (simp add: weak_rounds)
  from weak_bytes_randomized [OF weak_setup round weak_rounds(2) last K bps]
  obtain res st' where res: "loadAtxSector weak_disk single_density 0 1 = Inr (res, st')"
    and r0: "ret res = (if hasError (fst (scanned weak_disk ?c)) then 0 else fst (payload weak_disk ?c))"
    and keep: "\<forall>i<126. atari_sector_buffer st' i = atari_sector_buffer (snd (payload weak_disk ?c)) i"
    and fresh: "\<forall>i. 126 \<le> i \<and> i < unat (gBytesPerSector single_density) \<longrightarrow>
                atari_sector_buffer st' i = rand_byte weak_disk (rand_calls single_density + (i - 126))"
    by blast
  from keep have "atari_sector_buffer st' 125 = 0xAA"
    by (simp add: weak_rounds)
  moreover from fresh have "atari_sector_buffer st' 126 = 5"
    by (simp add: weak_rounds)
  moreover from fresh have "atari_sector_buffer st' 127 = 22"
    by (simp add: weak_rounds)
  moreover from r0 have "ret res = 0"
    by (simp add: weak_rounds)
  ultimately show ?thesis
    using res weak_rounds(2) by blast
qed

section \<open>The guards before the loop\<close>


lemma track_guard:
  assumes "gSectorsPerTrack st \<noteq> 0" and "40 < tgtTrackNumber st num"
  shows "loadAtxSector e st drive num = Inr (\<lparr>ret = 0, sectorSize = None, status = 0xF7\<rparr>, st)"
  using assms by (simp add: loadAtxSector_def sector_setup_def)




text \<open>
  Claim C7 against the code: with 18 sectors per track, sector 4609 lies on track 257.
  The track number is stored in a \<^verbatim>\<open>u08\<close>, where 257 is 1, so the guard
  \<^verbatim>\<open>tgtTrackNumber > 40\<close> lets the request through: the call issues reads, writes the
  sector size and returns the 128 bytes of sector 1 of track 1.
\<close>

theorem track_257_read_as_track_1:
  "(unat (4609 :: u16) - 1) div unat (gSectorsPerTrack single_density) + 1 = 257 \<and>
   tgtTrackNumber single_density 4609 = 1 \<and>
   \<not> isl (loadAtxSector overshoot_disk single_density 0 4609) \<and>
   ret (fst (projr (loadAtxSector overshoot_disk single_density 0 4609))) = 128 \<and>
   sectorSize (fst (projr (loadAtxSector overshoot_disk single_density 0 4609))) = Some 128 \<and>
   status (fst (projr (loadAtxSector overshoot_disk single_density 0 4609))) = 0xFF \<and>
   take 8 (trace (snd (projr (loadAtxSector overshoot_disk single_density 0 4609)))) =
     [DelayRequest, DelayTrackStep, DelayHeadSettle, Read 0 32, Read 32 8, Read 40 8,
      Read 48 8, Read 56 128]"
  by code_simp

section \<open>Division by the sectors per track\<close>

lemma sector_setup_error:
  assumes "sector_setup e st drive num = Inl err" and "gSectorsPerTrack st \<noteq> 0"
  shows "err \<noteq> DivisionByZero"
proof -
  have "sector_setup e st drive num = Inl DivisionByZero \<Longrightarrow> False"
    unfolding sector_setup_def Let_def using assms(2)
    by (simp split: if_splits)
  with assms(1) show ?thesis
    by blast
qed

lemma randomize_error:
  "randomize e w st = Inl err \<Longrightarrow> err = SectorBufferOverrun"
  by (simp add: randomize_def split: if_splits)

lemma sector_finish_error:
  assumes "sector_finish e c vs = Inl err"
  shows "err = SectorBufferOverrun"
proof -
  let ?st1 = "(snd vs)\<lparr>last_angle_returned := gLastAngle (snd vs)\<rparr>"
  let ?w = "weak_scan e (c_trackOffset c) (fst vs) ?st1"
  let ?r = "data_read e c (fst vs) (snd (snd ?w))"
  show ?thesis
  proof (cases "randomize e (fst ?w) (snd ?r)")
    case (Inl x)
    with assms have "err = x"
      by (simp add: sector_finish_def Let_def)
    with Inl randomize_error show ?thesis
      by blast
  next
    case (Inr s)
    with assms show ?thesis
      by (simp add: sector_finish_def Let_def)
  qed
qed

text \<open>
  Claim C10. \<^verbatim>\<open>loadAtxSector\<close> divides by \<open>gSectorsPerTrack\<close> without a guard: the
  call is a division by zero exactly when that global is 0, which it is from program
  start until an image has been loaded.
\<close>

theorem division_by_zero_without_image:
  "loadAtxSector e (atx_init buf angle) drive num = Inl DivisionByZero \<and>
   (loadAtxSector e st drive num = Inl DivisionByZero \<longleftrightarrow> gSectorsPerTrack st = 0)"
proof -
  have zero: "loadAtxSector e s drive num = Inl DivisionByZero" if "gSectorsPerTrack s = 0" for s
    using that by (simp add: loadAtxSector_def sector_setup_def)
  have nonzero: "loadAtxSector e st drive num \<noteq> Inl DivisionByZero" if spt: "gSectorsPerTrack st \<noteq> 0"
  proof (cases "sector_setup e st drive num")
    case (Inl err)
    with sector_setup_error [OF Inl spt] show ?thesis
      by (simp add: loadAtxSector_def)
  next
    case (Inr p)
    show ?thesis
    proof (cases p)
      case (Return r s)
      with Inr show ?thesis
        by (simp add: loadAtxSector_def)
    next
      case (Continue c)
      with Inr sector_finish_error [of e c "sector_scan e c"] show ?thesis
        by (auto simp: loadAtxSector_def)
    qed
  qed
  have "gSectorsPerTrack (atx_init buf angle) = 0"
    by (simp add: atx_init_def)
  with zero nonzero show ?thesis
    by blast
qed

end
